theory Spec2Isabelle
  imports Main "HOL-Library.Sublist" "HOL-Library.Char_ord" "HOL-Library.List_Lexorder"
begin

section \<open>The cl command: a shallow embedding of main.go\<close>

text \<open>
  cl runs the capslock analyzer on the packages imported by a module. Everything the
  program does beyond computing is written out: the two output streams, the files it
  writes and the sequence of calls it makes to the outside (processes, the package
  loader, the working directory, file writes) are fields of the state \<open>sys\<close>; what the
  outside answers is the record \<open>world\<close>. A nil-pointer panic is the outcome \<open>Panic\<close>.
\<close>

subsection \<open>Exit status codes (main.go, lines 21-27)\<close>

text \<open>
  The constant block starts at \<open>iota = 0\<close> with \<open>success\<close>; \<open>internalError\<close> is
  \<open>1 << (iota - 1)\<close> at \<open>iota = 1\<close>, and the two constants after it repeat the
  expression at \<open>iota = 2\<close> and \<open>iota = 3\<close>.
\<close>

definition success :: nat where
  "success = 0"

definition internalError :: nat where
  "internalError = push_bit (1 - 1) 1"

definition invocationError :: nat where
  "invocationError = push_bit (2 - 1) 1"

definition capChangeError :: nat where
  "capChangeError = push_bit (3 - 1) 1"

datatype outcome = Exit nat | Panic

subsection \<open>The outside world\<close>

text \<open>
  The result of \<open>cmd.Run()\<close> with both streams captured: the error of \<open>Run\<close> (if any),
  what the process wrote to its standard output and to its standard error.
\<close>

record proc =
  run_err :: "string option"
  proc_stdout :: string
  proc_stderr :: string

text \<open>
  A loaded package, with the fields the program reads: \<open>pkg.String()\<close> is the \<open>ID\<close>,
  \<open>Imports\<close> holds the keys of the import map (without repetition), \<open>Module\<close> is a
  pointer that may be nil, \<open>Errors\<close> is what \<open>packages.PrintErrors\<close> prints and counts.
  The load mode asks for imports and module only, so imported packages are stubs and
  carry no errors of their own.
\<close>

record pkg_module =
  Path :: string

record package =
  ID :: string
  Imports :: "string list"
  Module :: "pkg_module option"
  Errors :: "string list"

text \<open>
  A compiled \<open>*regexp.Regexp\<close> is represented by its source pattern. \<open>regexp_Compile\<close>
  gives the error of compiling a pattern (\<open>None\<close> when it compiles) and
  \<open>regexp_MatchString p s\<close> is \<open>re.MatchString(s)\<close> for the expression compiled from \<open>p\<close>.
  Go leaves the order of a \<open>range\<close> over a map unspecified: the three \<open>range_\<close> fields
  rank the keys of the three maps the program ranges over, and the loop visits the keys
  by increasing rank.
\<close>

record world =
  runtime_GOOS :: string
  runtime_GOARCH :: string
  os_DevNull :: string
  regexp_Compile :: "string \<Rightarrow> string option"
  regexp_MatchString :: "string \<Rightarrow> string \<Rightarrow> bool"
  go_env_GOMOD :: proc
  go_list_Standard :: "string \<Rightarrow> string \<Rightarrow> string \<Rightarrow> proc"
  capslock_bin :: "string list \<Rightarrow> proc"
  os_Getwd :: "string + string"
  os_WriteFile :: "string \<Rightarrow> string \<Rightarrow> string option"
  filepath_Dir :: "string \<Rightarrow> string"
  filepath_Join :: "string \<Rightarrow> string \<Rightarrow> string"
  packages_Load :: "string \<Rightarrow> string \<Rightarrow> string \<Rightarrow> string + package list"
  range_set :: "string \<Rightarrow> nat"
  range_Imports :: "string \<Rightarrow> string \<Rightarrow> nat"
  range_imps :: "string \<Rightarrow> nat"

text \<open>
  The calls to the outside, in the order they are made: a process with its arguments and
  the variables added to its environment, \<open>os.Getwd\<close>, \<open>packages.Load\<close> with its added
  environment and pattern, and \<open>os.WriteFile\<close> with path and contents.
\<close>

datatype event =
  Exec string "string list" "string list"
| Getwd
| Load "string list" string
| WriteFile string string

record sys =
  stdout :: string
  stderr :: string
  files :: "string \<rightharpoonup> string"
  trace :: "event list"

definition Fprintln_Stderr :: "string \<Rightarrow> sys \<Rightarrow> sys" where
  "Fprintln_Stderr msg s = s\<lparr>stderr := stderr s @ msg @ [CHR 0x0A]\<rparr>"

definition Print :: "string \<Rightarrow> sys \<Rightarrow> sys" where
  "Print msg s = s\<lparr>stdout := stdout s @ msg\<rparr>"

definition Println :: "string \<Rightarrow> sys \<Rightarrow> sys" where
  "Println msg s = s\<lparr>stdout := stdout s @ msg @ [CHR 0x0A]\<rparr>"

definition call :: "event \<Rightarrow> sys \<Rightarrow> sys" where
  "call e s = s\<lparr>trace := trace s @ [e]\<rparr>"

subsection \<open>Library functions the program uses\<close>

fun Join :: "string list \<Rightarrow> string \<Rightarrow> string" where
  "Join [] sep = []"
| "Join [x] sep = x"
| "Join (x # y # ys) sep = x @ sep @ Join (y # ys) sep"

text \<open>\<open>strings.TrimSpace\<close>, on the ASCII white space (tab, newline, vertical tab, form feed,
  carriage return, space).\<close>

definition isSpace :: "char \<Rightarrow> bool" where
  "isSpace c = (c \<in> set [CHR 0x09, CHR 0x0A, CHR 0x0B, CHR 0x0C, CHR 0x0D, CHR 0x20])"

definition TrimSpace :: "string \<Rightarrow> string" where
  "TrimSpace s = rev (dropWhile isSpace (rev (dropWhile isSpace s)))"

text \<open>\<open>strings.Cut(s, ";")\<close>: the text before the first semicolon and whether there is one
  (the text after it is not used).\<close>

definition Cut_semicolon :: "string \<Rightarrow> string \<times> bool" where
  "Cut_semicolon s = (if CHR '';'' \<in> set s then (takeWhile (\<lambda>c. c \<noteq> CHR '';'') s, True) else (s, False))"

text \<open>The keys of a map in the order a \<open>range\<close> visits them, by the rank the world gives.\<close>

definition go_range :: "(string \<Rightarrow> nat) \<Rightarrow> string list \<Rightarrow> string list" where
  "go_range rank ks = sort_key rank ks"

subsection \<open>The flag value \<open>set\<close> and the matchers (lines 64-101)\<close>

text \<open>\<open>set\<close> is \<open>map[string]bool\<close>; only its keys matter, kept without repetition.\<close>

definition set_Set :: "string list \<Rightarrow> string \<Rightarrow> string list" where
  "set_Set s v = (if v \<in> set s then s else s @ [v])"

fun regexps_loop :: "world \<Rightarrow> string list \<Rightarrow> string list \<Rightarrow> string list \<times> string option" where
  "regexps_loop w [] re = (re, None)"
| "regexps_loop w (p # ps) re =
     (case regexp_Compile w p of
        Some err \<Rightarrow> ([], Some err)
      | None \<Rightarrow> regexps_loop w ps (re @ [p]))"

definition regexps :: "world \<Rightarrow> string list \<Rightarrow> string list \<times> string option" where
  "regexps w s = regexps_loop w (go_range (range_set w) s) []"

fun match :: "world \<Rightarrow> string list \<Rightarrow> string \<Rightarrow> bool" where
  "match w [] s = False"
| "match w (re # m) s = (if regexp_MatchString w re s then True else match w m s)"

subsection \<open>moduleRoot, isStdlib and capslock (lines 203-273)\<close>

definition moduleRoot :: "world \<Rightarrow> sys \<Rightarrow> sys \<times> string \<times> bool \<times> string option" where
  "moduleRoot w s =
     (let s1 = call (Exec ''go'' [''env'', ''GOMOD''] []) s;
          r = go_env_GOMOD w
      in case run_err r of
           Some e \<Rightarrow> (s1, [], False, Some (''go env '' @ e @ '': '' @ proc_stderr r))
         | None \<Rightarrow>
             (let gomod = TrimSpace (proc_stdout r)
              in if gomod = [] then (s1, [], True, Some ''go tool not running in module mode'')
                 else if gomod = os_DevNull w then (s1, [], True, Some ''no go.mod'')
                 else (s1, filepath_Dir w gomod, True, None)))"

definition isStdlib :: "world \<Rightarrow> string \<Rightarrow> string \<Rightarrow> string \<Rightarrow> sys \<Rightarrow> sys \<times> bool \<times> string option" where
  "isStdlib w p goos goarch s =
     (let s1 = call (Exec ''go'' [''list'', ''-f={{.Standard}}'', p]
                       [''GOOS='' @ goos, ''GOARCH='' @ goarch]) s;
          r = go_list_Standard w goos goarch p
      in case run_err r of
           Some e \<Rightarrow>
             (case Cut_semicolon (proc_stderr r) of
                (note, True) \<Rightarrow> (s1, False, Some (''go list '' @ e @ '': '' @ note))
              | (note, False) \<Rightarrow> (s1, False, Some (''go list '' @ e @ '': '' @ proc_stderr r)))
         | None \<Rightarrow> (s1, TrimSpace (proc_stdout r) = ''true'', None))"

text \<open>The argument list that \<open>capslock\<close> builds (lines 251-260).\<close>

definition capslock_args ::
  "string \<Rightarrow> string \<Rightarrow> string list \<Rightarrow> string \<Rightarrow> string \<Rightarrow> string \<Rightarrow> bool \<Rightarrow> string list" where
  "capslock_args goos goarch pkgs format path custom noBuiltin =
     [''-goos'', goos, ''-goarch'', goarch, ''-output'', format, ''-packages'', Join pkgs '','']
     @ (if format = ''compare'' then [path] else [])
     @ (if custom \<noteq> [] then [''capability_map'', custom] @ (if noBuiltin then [''disable_builtin''] else [])
        else [])"

text \<open>
  \<open>capslock\<close> returns the buffer (\<open>None\<close> is the nil pointer) and the error. A write that
  fails is recorded as a call and leaves \<open>files\<close> as it was.
\<close>

definition capslock ::
  "world \<Rightarrow> string \<Rightarrow> string \<Rightarrow> string list \<Rightarrow> string \<Rightarrow> string \<Rightarrow> string \<Rightarrow> bool \<Rightarrow> sys
     \<Rightarrow> sys \<times> string option \<times> string option" where
  "capslock w goos goarch pkgs format path custom noBuiltin s =
     (let args = capslock_args goos goarch pkgs format path custom noBuiltin;
          s1 = call (Exec ''capslock'' args []) s;
          r = capslock_bin w args
      in case run_err r of
           Some e \<Rightarrow> (s1, None, Some (''capslock: '' @ e @ '': '' @ proc_stderr r))
         | None \<Rightarrow>
             if format \<noteq> ''compare'' then
               (let s2 = call (WriteFile path (proc_stdout r)) s1
                in case os_WriteFile w path (proc_stdout r) of
                     Some e \<Rightarrow> (s2, Some (proc_stdout r), Some e)
                   | None \<Rightarrow> (s2\<lparr>files := (files s2)(path \<mapsto> proc_stdout r)\<rparr>, Some (proc_stdout r), None))
             else (s1, Some (proc_stdout r), None))"

subsection \<open>analyse (lines 103-201)\<close>

text \<open>Lines 104-123: the root directory, or the exit code of the failure. The test of
  \<open>err\<close> at lines 120-123 comes after both earlier tests have returned on an error, so it
  never fires and has no branch here.\<close>

definition find_root :: "world \<Rightarrow> bool \<Rightarrow> sys \<Rightarrow> sys \<times> (nat + string)" where
  "find_root w module s =
     (case moduleRoot w s of
        (s1, root, valid, Some err) \<Rightarrow>
          (Fprintln_Stderr err s1, Inl (if valid then invocationError else internalError))
      | (s1, root, valid, None) \<Rightarrow>
          if \<not> module then
            (let s2 = call Getwd s1
             in case os_Getwd w of
                  Inl err \<Rightarrow> (Fprintln_Stderr err s2, Inl internalError)
                | Inr cwd \<Rightarrow> (s2, Inr cwd))
          else (s1, Inr root))"

text \<open>\<open>packages.PrintErrors\<close>: every error of every package goes to standard error, and
  their number is returned.\<close>

definition PrintErrors :: "package list \<Rightarrow> sys \<Rightarrow> sys \<times> nat" where
  "PrintErrors pkgs s =
     (let errs = concat (map Errors pkgs)
      in (foldl (\<lambda>t e. Fprintln_Stderr e t) s errs, length errs))"

text \<open>\<open>imps[imp] = append(imps[imp], v)\<close> on the map kept as a list of entries.\<close>

fun imps_append :: "(string \<times> string list) list \<Rightarrow> string \<Rightarrow> string \<Rightarrow> (string \<times> string list) list" where
  "imps_append [] imp v = [(imp, [v])]"
| "imps_append ((k, by) # m) imp v =
     (if k = imp then (k, by @ [v]) # m else (k, by) # imps_append m imp v)"

text \<open>Lines 144-152, the inner loop over the imports of one package. \<open>pkg.Module.Path\<close>
  is evaluated at each import: with a nil \<open>Module\<close> that is a panic (\<open>None\<close>).\<close>

fun collect_pkg ::
  "world \<Rightarrow> string list \<Rightarrow> package \<Rightarrow> string list \<Rightarrow> (string \<times> string list) list
     \<Rightarrow> (string \<times> string list) list option" where
  "collect_pkg w ignore pkg [] imps = Some imps"
| "collect_pkg w ignore pkg (imp # rest) imps =
     (case Module pkg of
        None \<Rightarrow> None
      | Some m \<Rightarrow>
          if prefix (Path m) imp then collect_pkg w ignore pkg rest imps
          else if match w ignore imp then collect_pkg w ignore pkg rest imps
          else collect_pkg w ignore pkg rest (imps_append imps imp (ID pkg)))"

text \<open>Lines 143-153, the loop over the loaded packages.\<close>

fun collect ::
  "world \<Rightarrow> string list \<Rightarrow> package list \<Rightarrow> (string \<times> string list) list
     \<Rightarrow> (string \<times> string list) list option" where
  "collect w ignore [] imps = Some imps"
| "collect w ignore (pkg # pkgs) imps =
     (case collect_pkg w ignore pkg (go_range (range_Imports w (ID pkg)) (Imports pkg)) imps of
        None \<Rightarrow> None
      | Some imps' \<Rightarrow> collect w ignore pkgs imps')"

text \<open>Lines 155-167, the loop over the entries of \<open>imps\<close>; \<open>None\<close> is the return of
  \<open>internalError\<close> at line 160.\<close>

fun classify ::
  "world \<Rightarrow> string \<Rightarrow> string \<Rightarrow> bool \<Rightarrow> (string \<times> string list) list \<Rightarrow> string list \<Rightarrow> sys
     \<Rightarrow> sys \<times> string list option" where
  "classify w goos goarch stdlib [] imports s = (s, Some imports)"
| "classify w goos goarch stdlib ((i, by) # rest) imports s =
     (if \<not> stdlib then
        (case isStdlib w i goos goarch s of
           (s1, isStd, Some err) \<Rightarrow>
             (s1\<lparr>stderr := stderr s1 @ err @ '': imported by '' @ Join by '','' @ [CHR 0x0A]\<rparr>, None)
         | (s1, isStd, None) \<Rightarrow>
             if isStd then classify w goos goarch stdlib rest imports s1
             else classify w goos goarch stdlib rest (imports @ [i]) s1)
      else classify w goos goarch stdlib rest (imports @ [i]) s)"

definition imps_range :: "world \<Rightarrow> (string \<times> string list) list \<Rightarrow> (string \<times> string list) list" where
  "imps_range w imps = sort_key (\<lambda>e. range_imps w (fst e)) imps"

text \<open>Lines 104-167: how the resolution of the import list ends.\<close>

datatype resolution = Aborted outcome | Resolved string "string list"

definition resolve ::
  "world \<Rightarrow> string \<Rightarrow> string \<Rightarrow> string list \<Rightarrow> bool \<Rightarrow> bool \<Rightarrow> sys \<Rightarrow> sys \<times> resolution" where
  "resolve w goos goarch ignore module stdlib s =
     (case find_root w module s of
        (s1, Inl code) \<Rightarrow> (s1, Aborted (Exit code))
      | (s1, Inr root) \<Rightarrow>
          (let env = [''GOOS='' @ goos, ''GOARCH='' @ goarch];
               s2 = call (Load env (filepath_Join w root ''...'')) s1
           in case packages_Load w goos goarch (filepath_Join w root ''...'') of
                Inl err \<Rightarrow>
                  (s2\<lparr>stderr := stderr s2 @ ''load: '' @ err @ [CHR 0x0A]\<rparr>, Aborted (Exit internalError))
              | Inr pkgs \<Rightarrow>
                  (case PrintErrors pkgs s2 of
                     (s3, n) \<Rightarrow>
                       if n \<noteq> 0 then (s3, Aborted (Exit internalError))
                       else
                         (case collect w ignore pkgs [] of
                            None \<Rightarrow> (s3, Aborted Panic)
                          | Some imps \<Rightarrow>
                              (case classify w goos goarch stdlib (imps_range w imps) [] s3 of
                                 (s4, None) \<Rightarrow> (s4, Aborted (Exit internalError))
                               | (s4, Some imports) \<Rightarrow> (s4, Resolved root imports))))))"

text \<open>Lines 168-200: listing, writing the baseline, comparing.\<close>

definition dispatch ::
  "world \<Rightarrow> string \<Rightarrow> string \<Rightarrow> bool \<Rightarrow> bool \<Rightarrow> bool \<Rightarrow> bool \<Rightarrow> string \<Rightarrow> string \<Rightarrow> string list \<Rightarrow> sys
     \<Rightarrow> sys \<times> outcome" where
  "dispatch w goos goarch list lock verbose noBuiltin custom root imports s =
     (if list then
        (foldl (\<lambda>t i. Println i t) s (sort imports), Exit success)
      else if lock then
        (case capslock w goos goarch imports ''verbose'' (filepath_Join w root ''caps.summary'') custom noBuiltin s of
           (s1, buf, Some err) \<Rightarrow> (Fprintln_Stderr err s1, Exit internalError)
         | (s1, buf, None) \<Rightarrow>
             (let s2 = (if verbose then Println (case buf of None \<Rightarrow> ''<nil>'' | Some b \<Rightarrow> b) s1 else s1)
              in case capslock w goos goarch imports ''json'' (filepath_Join w root ''caps.lock'') custom noBuiltin s2 of
                   (s3, buf', Some err) \<Rightarrow> (Fprintln_Stderr err s3, Exit internalError)
                 | (s3, buf', None) \<Rightarrow> (s3, Exit success)))
      else
        (case capslock w goos goarch imports ''compare'' (filepath_Join w root ''caps.lock'') custom noBuiltin s of
           (s1, buf, Some err) \<Rightarrow> (Fprintln_Stderr err s1, Exit internalError)
         | (s1, buf, None) \<Rightarrow>
             (case buf of
                None \<Rightarrow> (Print ''<nil>'' s1, Panic)
              | Some b \<Rightarrow>
                  (let s2 = Print b s1
                   in if length b \<noteq> 0 then (s2, Exit capChangeError) else (s2, Exit success)))))"

definition analyse ::
  "world \<Rightarrow> string \<Rightarrow> string \<Rightarrow> string list \<Rightarrow> bool \<Rightarrow> bool \<Rightarrow> bool \<Rightarrow> bool \<Rightarrow> bool \<Rightarrow> bool \<Rightarrow> string \<Rightarrow> sys
     \<Rightarrow> sys \<times> outcome" where
  "analyse w goos goarch ignore module list lock stdlib verbose noBuiltin custom s =
     (case resolve w goos goarch ignore module stdlib s of
        (s1, Aborted out) \<Rightarrow> (s1, out)
      | (s1, Resolved root imports) \<Rightarrow>
          dispatch w goos goarch list lock verbose noBuiltin custom root imports s1)"

subsection \<open>Main (lines 33-62)\<close>

text \<open>The flags after \<open>flag.Parse()\<close>; \<open>flag_i\<close> lists the values of the \<open>-i\<close> flags in
  the order of the command line, each of which the flag package hands to \<open>Set\<close>.\<close>

record flags =
  flag_lock :: bool
  flag_mod :: bool
  flag_imports :: bool
  flag_stdlib :: bool
  flag_v :: bool
  flag_goos :: string
  flag_goarch :: string
  flag_capability_map :: string
  flag_disable_builtin :: bool
  flag_i :: "string list"

definition Main :: "world \<Rightarrow> flags \<Rightarrow> sys \<Rightarrow> sys \<times> outcome" where
  "Main w f s =
     (let ignore = foldl set_Set [] (flag_i f);
          (ignorer, err) = regexps w ignore
      in if flag_disable_builtin f \<and> flag_capability_map f = [] then
           (Fprintln_Stderr ''disable_builtin requires capability_map'' s, Exit invocationError)
         else
           (case err of
              Some e \<Rightarrow> (Fprintln_Stderr e s, Exit invocationError)
            | None \<Rightarrow>
                (let goos = (if flag_goos f = [] then runtime_GOOS w else flag_goos f);
                     goarch = (if flag_goarch f = [] then runtime_GOARCH w else flag_goarch f)
                 in analyse w goos goarch ignorer (flag_mod f) (flag_imports f) (flag_lock f)
                      (flag_stdlib f) (flag_v f) (flag_disable_builtin f) (flag_capability_map f) s)))"

section \<open>Notions used in the statements\<close>

text \<open>
  A call that reads or writes the baseline files: a run of the analyzer (which reads the
  lock file it is given and whose output the program stores) or a file write.
\<close>

definition baseline_access :: "event \<Rightarrow> bool" where
  "baseline_access e =
     (case e of Exec cmd args env \<Rightarrow> cmd = ''capslock'' | WriteFile p c \<Rightarrow> True | _ \<Rightarrow> False)"

text \<open>
  The step from \<open>s\<close> to \<open>s'\<close> leaves the files and the standard output as they are and only
  adds calls to the trace, none of them a baseline access.
\<close>

definition untouched :: "sys \<Rightarrow> sys \<Rightarrow> bool" where
  "untouched s s' =
     (files s' = files s \<and> stdout s' = stdout s \<and> prefix (trace s) (trace s')
      \<and> filter baseline_access (trace s') = filter baseline_access (trace s))"


subsection \<open>Concrete worlds and inputs\<close>

text \<open>
  A module \<open>example.com/m\<close> in \<open>/src/m\<close> with two packages. In this world a pattern
  matches when it occurs in the path literally (what a Go expression without
  metacharacters does), the only pattern that does not compile is \<open>(\<close>, and every
  \<open>range\<close> visits the keys in their order of insertion.
\<close>

definition ran :: "string \<Rightarrow> proc" where
  "ran out = \<lparr>run_err = None, proc_stdout = out, proc_stderr = []\<rparr>"

definition broke :: "string \<Rightarrow> string \<Rightarrow> proc" where
  "broke e msg = \<lparr>run_err = Some e, proc_stdout = [], proc_stderr = msg\<rparr>"

definition sys0 :: sys where
  "sys0 = \<lparr>stdout = [], stderr = [], files = Map.empty, trace = []\<rparr>"

definition flags0 :: flags where
  "flags0 = \<lparr>flag_lock = False, flag_mod = True, flag_imports = False, flag_stdlib = False,
     flag_v = False, flag_goos = [], flag_goarch = [], flag_capability_map = [],
     flag_disable_builtin = False, flag_i = []\<rparr>"

definition pkg_m :: package where
  "pkg_m = \<lparr>ID = ''example.com/m'',
     Imports = [''fmt'', ''example.com/m/internal/x'', ''github.com/b/dep'', ''github.com/z/ignored''],
     Module = Some \<lparr>Path = ''example.com/m''\<rparr>, Errors = []\<rparr>"

definition pkg_x :: package where
  "pkg_x = \<lparr>ID = ''example.com/m/internal/x'',
     Imports = [''os'', ''github.com/a/lib'', ''github.com/b/dep''],
     Module = Some \<lparr>Path = ''example.com/m''\<rparr>, Errors = []\<rparr>"

definition demo_world :: world where
  "demo_world = \<lparr>
     runtime_GOOS = ''linux'',
     runtime_GOARCH = ''amd64'',
     os_DevNull = ''/dev/null'',
     regexp_Compile = (\<lambda>p. if p = ''('' then Some ''error parsing regexp: missing closing )'' else None),
     regexp_MatchString = (\<lambda>p s. sublist p s),
     go_env_GOMOD = ran (''/src/m/go.mod'' @ [CHR 0x0A]),
     go_list_Standard = (\<lambda>goos goarch p. ran ((if p = ''fmt'' \<or> p = ''os'' then ''true'' else ''false'') @ [CHR 0x0A])),
     capslock_bin = (\<lambda>args. ran (if args ! 5 = ''compare'' then [] else if args ! 5 = ''verbose'' then ''summary'' else ''{}'')),
     os_Getwd = Inr ''/src/m/internal'',
     os_WriteFile = (\<lambda>path b. None),
     filepath_Dir = (\<lambda>p. rev (tl (dropWhile (\<lambda>c. c \<noteq> CHR ''/'') (rev p)))),
     filepath_Join = (\<lambda>a b. a @ ''/'' @ b),
     packages_Load = (\<lambda>goos goarch pat. if pat = ''/src/m/...'' then Inr [pkg_m, pkg_x] else Inr [pkg_x]),
     range_set = (\<lambda>k. 0),
     range_Imports = (\<lambda>p k. 0),
     range_imps = (\<lambda>k. 0)\<rparr>"


text \<open>The toolchain outside module mode, the module without a \<open>go.mod\<close>, and a \<open>go\<close>
  command that fails.\<close>

definition gopath_world :: world where
  "gopath_world = demo_world\<lparr>go_env_GOMOD := ran [CHR 0x0A]\<rparr>"

definition nomod_world :: world where
  "nomod_world = demo_world\<lparr>go_env_GOMOD := ran (''/dev/null'' @ [CHR 0x0A])\<rparr>"

definition goless_world :: world where
  "goless_world = demo_world\<lparr>go_env_GOMOD := broke ''exit status 2'' ''go: unknown command''\<rparr>"


text \<open>The analyzer reports a difference.\<close>

definition drift_world :: world where
  "drift_world = demo_world\<lparr>capslock_bin := (\<lambda>args. ran ''+ github.com/b/dep NETWORK'')\<rparr>"

text \<open>A load that returns a package without module metadata.\<close>

definition pkg_bare :: package where
  "pkg_bare = \<lparr>ID = ''example.com/m'', Imports = [''fmt''], Module = None, Errors = []\<rparr>"

definition bare_world :: world where
  "bare_world = demo_world\<lparr>packages_Load := (\<lambda>goos goarch pat. Inr [pkg_bare])\<rparr>"

text \<open>The same world with another order of iteration over the map of imports.\<close>

definition shuffled_world :: world where
  "shuffled_world = demo_world\<lparr>range_imps := (\<lambda>k. if k = ''github.com/a/lib'' then 0 else 1)\<rparr>"

text \<open>Every file write fails.\<close>

definition readonly_world :: world where
  "readonly_world = demo_world\<lparr>os_WriteFile := (\<lambda>path b. Some ''permission denied'')\<rparr>"

section \<open>Facts about the model\<close>

lemma exit_codes: "success = 0" "internalError = 1" "invocationError = 2" "capChangeError = 4"
  by (simp_all add: success_def internalError_def invocationError_def capChangeError_def)

lemma untouched_refl: "untouched s s"
  by (simp add: untouched_def)

lemma untouched_trans: "untouched s s1 \<Longrightarrow> untouched s1 s2 \<Longrightarrow> untouched s s2"
  by (auto simp: untouched_def elim: prefix_order.trans)

lemma untouched_stderr: "untouched s (Fprintln_Stderr e s)"
  by (simp add: untouched_def Fprintln_Stderr_def)

lemma untouched_stderr_upd: "untouched s (s\<lparr>stderr := x\<rparr>)"
  by (simp add: untouched_def)

lemma untouched_call: "\<not> baseline_access e \<Longrightarrow> untouched s (call e s)"
  by (simp add: untouched_def call_def)

lemma moduleRoot_state:
  "moduleRoot w s = (s1, r) \<Longrightarrow> s1 = call (Exec ''go'' [''env'', ''GOMOD''] []) s"
  by (auto simp: moduleRoot_def Let_def split: option.splits if_splits)

lemma moduleRoot_untouched: "moduleRoot w s = (s1, r) \<Longrightarrow> untouched s s1"
  by (auto dest!: moduleRoot_state intro!: untouched_call simp: baseline_access_def)

lemma isStdlib_state:
  "isStdlib w p goos goarch s = (s1, r) \<Longrightarrow>
     s1 = call (Exec ''go'' [''list'', ''-f={{.Standard}}'', p] [''GOOS='' @ goos, ''GOARCH='' @ goarch]) s"
  by (auto simp: isStdlib_def Let_def split: option.splits if_splits prod.splits bool.splits)

lemma isStdlib_untouched: "isStdlib w p goos goarch s = (s1, r) \<Longrightarrow> untouched s s1"
  by (auto dest!: isStdlib_state intro!: untouched_call simp: baseline_access_def)

lemma find_root_untouched: "find_root w module s = (s1, r) \<Longrightarrow> untouched s s1"
  unfolding find_root_def
  by (auto split: prod.splits option.splits if_splits sum.splits
      dest!: moduleRoot_state
      simp: Let_def untouched_def call_def Fprintln_Stderr_def baseline_access_def)

lemma PrintErrors_untouched: "PrintErrors pkgs s = (s1, n) \<Longrightarrow> untouched s s1"
proof -
  have "untouched s (foldl (\<lambda>t e. Fprintln_Stderr e t) s errs)" for errs
    by (induction errs arbitrary: s) (auto intro: untouched_refl untouched_trans untouched_stderr)
  then show "PrintErrors pkgs s = (s1, n) \<Longrightarrow> untouched s s1"
    by (auto simp: PrintErrors_def Let_def)
qed

lemma classify_untouched:
  "classify w goos goarch stdlib es acc s = (s1, r) \<Longrightarrow> untouched s s1"
proof (induction es arbitrary: acc s)
  case Nil
  then show ?case by (simp add: untouched_refl)
next
  case (Cons e es)
  obtain i bs where e: "e = (i, bs)" by (cases e)
  show ?case
  proof (cases stdlib)
    case True
    with Cons e show ?thesis by simp
  next
    case False
    obtain t isStd err where st: "isStdlib w i goos goarch s = (t, isStd, err)"
      by (cases "isStdlib w i goos goarch s") auto
    have ut: "untouched s t" using st by (rule isStdlib_untouched)
    show ?thesis
    proof (cases err)
      case (Some m)
      with Cons.prems e False st have "s1 = t\<lparr>stderr := stderr t @ m @ '': imported by '' @ Join bs '','' @ [CHR 0x0A]\<rparr>"
        by auto
      then show ?thesis using ut by (auto intro: untouched_trans untouched_stderr_upd)
    next
      case None
      with Cons.prems e False st
      have "classify w goos goarch stdlib es (if isStd then acc else acc @ [i]) t = (s1, r)"
        by (auto split: if_splits)
      then have "untouched t s1" by (rule Cons.IH)
      with ut show ?thesis by (rule untouched_trans)
    qed
  qed
qed

lemma resolve_after_root:
  assumes fr: "find_root w module s = (s1, Inr root)"
  shows "untouched (call (Load [''GOOS='' @ goos, ''GOARCH='' @ goarch] (filepath_Join w root ''...'')) s1)
           (fst (resolve w goos goarch ignore module stdlib s))"
proof -
  define s2 where "s2 = call (Load [''GOOS='' @ goos, ''GOARCH='' @ goarch] (filepath_Join w root ''...'')) s1"
  obtain s' r where res: "resolve w goos goarch ignore module stdlib s = (s', r)"
    by (cases "resolve w goos goarch ignore module stdlib s") auto
  have "untouched s2 s'"
  proof (cases "packages_Load w goos goarch (filepath_Join w root ''...'')")
    case (Inl err)
    with res fr have "s' = s2\<lparr>stderr := stderr s2 @ ''load: '' @ err @ [CHR 0x0A]\<rparr>"
      by (simp add: resolve_def s2_def Let_def)
    then show ?thesis by (simp add: untouched_stderr_upd)
  next
    case pk: (Inr pkgs)
    obtain s3 n where pe: "PrintErrors pkgs s2 = (s3, n)"
      by (cases "PrintErrors pkgs s2") auto
    have u3: "untouched s2 s3" using pe by (rule PrintErrors_untouched)
    show ?thesis
    proof (cases "n \<noteq> 0 \<or> collect w ignore pkgs [] = None")
      case True
      with res fr pk pe have "s' = s3"
        by (auto simp: resolve_def s2_def Let_def split: if_splits)
      with u3 show ?thesis by simp
    next
      case False
      then obtain imps where c: "n = 0" "collect w ignore pkgs [] = Some imps" by auto
      obtain s4 cr where cl: "classify w goos goarch stdlib (imps_range w imps) [] s3 = (s4, cr)"
        by (cases "classify w goos goarch stdlib (imps_range w imps) [] s3") auto
      from res fr pk pe c cl have "s' = s4"
        by (auto simp: resolve_def s2_def Let_def split: option.splits)
      with u3 classify_untouched[OF cl] show ?thesis by (auto intro: untouched_trans)
    qed
  qed
  with res show ?thesis by (simp add: s2_def)
qed

lemma resolve_untouched:
  assumes "resolve w goos goarch ignore module stdlib s = (s', r)"
  shows "untouched s s'"
proof -
  obtain s1 rt where fr: "find_root w module s = (s1, rt)"
    by (cases "find_root w module s") auto
  have u1: "untouched s s1" using fr by (rule find_root_untouched)
  show ?thesis
  proof (cases rt)
    case (Inl code)
    with assms fr have "s' = s1" by (simp add: resolve_def)
    with u1 show ?thesis by simp
  next
    case (Inr root)
    have "untouched s1 (call (Load [''GOOS='' @ goos, ''GOARCH='' @ goarch] (filepath_Join w root ''...'')) s1)"
      by (rule untouched_call) (simp add: baseline_access_def)
    moreover have "untouched (call (Load [''GOOS='' @ goos, ''GOARCH='' @ goarch] (filepath_Join w root ''...'')) s1) s'"
      using resolve_after_root[of w module s s1 root goos goarch ignore stdlib] fr Inr assms by simp
    ultimately show ?thesis using u1 by (blast intro: untouched_trans)
  qed
qed

lemma match_iff: "match w m s \<longleftrightarrow> (\<exists>re\<in>set m. regexp_MatchString w re s)"
  by (induction m) auto

lemma regexps_loop_set:
  "regexps_loop w ps re = (ignore, None) \<Longrightarrow> set ignore = set re \<union> set ps"
proof (induction ps arbitrary: re)
  case Nil
  then show ?case by simp
next
  case (Cons p ps)
  from Cons.prems have r: "regexps_loop w ps (re @ [p]) = (ignore, None)"
    by (cases "regexp_Compile w p") simp_all
  from Cons.IH[OF r] show ?case by simp
qed

lemma regexps_set: "regexps w P = (ignore, None) \<Longrightarrow> set ignore = set P"
  using regexps_loop_set[of w "go_range (range_set w) P" "[]" ignore]
  by (simp add: regexps_def go_range_def)

lemma imps_append_keys: "fst ` set (imps_append m k v) = insert k (fst ` set m)"
  by (induction m k v rule: imps_append.induct) auto

lemma collect_pkg_keys:
  "collect_pkg w ignore pkg is imps = Some imps' \<Longrightarrow> k \<in> fst ` set imps' \<Longrightarrow>
     k \<in> fst ` set imps
     \<or> (k \<in> set is \<and> \<not> match w ignore k \<and> (\<exists>m. Module pkg = Some m \<and> \<not> prefix (Path m) k))"
proof (induction "is" arbitrary: imps)
  case Nil
  then show ?case by simp
next
  case (Cons imp rest)
  then obtain m where m: "Module pkg = Some m" by (cases "Module pkg") auto
  show ?case
  proof (cases "prefix (Path m) imp \<or> match w ignore imp")
    case True
    with Cons.prems m have "collect_pkg w ignore pkg rest imps = Some imps'"
      by (auto split: if_splits)
    from Cons.IH[OF this Cons.prems(2)] show ?thesis by auto
  next
    case False
    with Cons.prems m have "collect_pkg w ignore pkg rest (imps_append imps imp (ID pkg)) = Some imps'"
      by auto
    from Cons.IH[OF this Cons.prems(2)] False m show ?thesis
      by (auto simp: imps_append_keys)
  qed
qed

lemma collect_keys:
  "collect w ignore pkgs imps = Some imps' \<Longrightarrow> k \<in> fst ` set imps' \<Longrightarrow>
     k \<in> fst ` set imps
     \<or> (\<exists>pkg\<in>set pkgs. k \<in> set (Imports pkg) \<and> \<not> match w ignore k
           \<and> (\<exists>m. Module pkg = Some m \<and> \<not> prefix (Path m) k))"
proof (induction pkgs arbitrary: imps)
  case Nil
  then show ?case by simp
next
  case (Cons pkg pkgs)
  then obtain mid where
    a: "collect_pkg w ignore pkg (go_range (range_Imports w (ID pkg)) (Imports pkg)) imps = Some mid"
    and b: "collect w ignore pkgs mid = Some imps'"
    by (auto split: option.splits)
  from Cons.IH[OF b Cons.prems(2)] collect_pkg_keys[OF a, of k]
  show ?case by (auto simp: go_range_def)
qed

lemma collect_pkg_None:
  "collect_pkg w ignore pkg is imps = None \<longleftrightarrow> (Module pkg = None \<and> is \<noteq> [])"
  by (induction "is" arbitrary: imps) (auto split: option.splits)

lemma go_range_Nil: "go_range rank ks = [] \<longleftrightarrow> ks = []"
  by (metis go_range_def set_sort set_empty)

lemma collect_None:
  "collect w ignore pkgs imps = None \<longleftrightarrow> (\<exists>pkg\<in>set pkgs. Module pkg = None \<and> Imports pkg \<noteq> [])"
proof (induction pkgs arbitrary: imps)
  case Nil
  then show ?case by simp
next
  case (Cons pkg pkgs)
  let ?r = "collect_pkg w ignore pkg (go_range (range_Imports w (ID pkg)) (Imports pkg)) imps"
  show ?case
  proof (cases ?r)
    case None
    then have "Module pkg = None \<and> Imports pkg \<noteq> []"
      by (simp add: collect_pkg_None go_range_Nil)
    with None show ?thesis by simp
  next
    case (Some mid)
    then have "\<not> (Module pkg = None \<and> Imports pkg \<noteq> [])"
      using collect_pkg_None[of w ignore pkg "go_range (range_Imports w (ID pkg)) (Imports pkg)" imps]
      by (simp add: go_range_Nil)
    with Some Cons.IH[of mid] show ?thesis by auto
  qed
qed

lemma classify_subset:
  "classify w goos goarch stdlib es acc s = (s', Some imports) \<Longrightarrow> set imports \<subseteq> set acc \<union> fst ` set es"
proof (induction es arbitrary: acc s)
  case Nil
  then show ?case by simp
next
  case (Cons e es)
  obtain i bs where e: "e = (i, bs)" by (cases e)
  have "\<exists>acc' t. classify w goos goarch stdlib es acc' t = (s', Some imports) \<and> set acc' \<subseteq> insert i (set acc)"
  proof (cases stdlib)
    case True
    with Cons.prems e have "classify w goos goarch stdlib es (acc @ [i]) s = (s', Some imports)" by simp
    then show ?thesis by (intro exI[of _ "acc @ [i]"] exI[of _ s]) auto
  next
    case False
    obtain t isStd err where st: "isStdlib w i goos goarch s = (t, isStd, err)"
      by (cases "isStdlib w i goos goarch s") auto
    from Cons.prems e False st have err: "err = None" by (cases err) auto
    with Cons.prems e False st
    have "classify w goos goarch stdlib es (if isStd then acc else acc @ [i]) t = (s', Some imports)"
      by (cases isStd) auto
    then show ?thesis
      by (intro exI[of _ "if isStd then acc else acc @ [i]"] exI[of _ t]) auto
  qed
  then obtain acc' t where
    "classify w goos goarch stdlib es acc' t = (s', Some imports)" and "set acc' \<subseteq> insert i (set acc)"
    by blast
  from Cons.IH[OF this(1)] this(2) e show ?case by auto
qed

lemma resolve_ResolvedE:
  assumes r: "resolve w goos goarch ignore module stdlib s = (s', Resolved root imports)"
  obtains s1 pkgs s3 imps where
    "find_root w module s = (s1, Inr root)"
    "packages_Load w goos goarch (filepath_Join w root ''...'') = Inr pkgs"
    "PrintErrors pkgs (call (Load [''GOOS='' @ goos, ''GOARCH='' @ goarch] (filepath_Join w root ''...'')) s1) = (s3, 0)"
    "collect w ignore pkgs [] = Some imps"
    "classify w goos goarch stdlib (imps_range w imps) [] s3 = (s', Some imports)"
proof -
  obtain s1 rt where fr: "find_root w module s = (s1, rt)"
    by (cases "find_root w module s") auto
  from r fr obtain root' where rt: "rt = Inr root'"
    by (cases rt) (auto simp: resolve_def)
  let ?pat = "filepath_Join w root' ''...''"
  let ?s2 = "call (Load [''GOOS='' @ goos, ''GOARCH='' @ goarch] ?pat) s1"
  from r fr rt obtain pkgs where pk: "packages_Load w goos goarch ?pat = Inr pkgs"
    by (cases "packages_Load w goos goarch ?pat") (auto simp: resolve_def Let_def)
  obtain s3 n where pe: "PrintErrors pkgs ?s2 = (s3, n)"
    by (cases "PrintErrors pkgs ?s2") auto
  have step: "resolve w goos goarch ignore module stdlib s =
      (if n \<noteq> 0 then (s3, Aborted (Exit internalError))
       else case collect w ignore pkgs [] of
              None \<Rightarrow> (s3, Aborted Panic)
            | Some imps \<Rightarrow>
                (case classify w goos goarch stdlib (imps_range w imps) [] s3 of
                   (s4, None) \<Rightarrow> (s4, Aborted (Exit internalError))
                 | (s4, Some imports) \<Rightarrow> (s4, Resolved root' imports)))"
    using fr rt pk pe by (simp add: resolve_def Let_def)
  from r step have n: "n = 0" by (cases "n = 0") auto
  from r step n obtain imps where c: "collect w ignore pkgs [] = Some imps"
    by (cases "collect w ignore pkgs []") auto
  obtain s4 res where cl: "classify w goos goarch stdlib (imps_range w imps) [] s3 = (s4, res)"
    by (cases "classify w goos goarch stdlib (imps_range w imps) [] s3") auto
  from r step n c cl have "s4 = s'" "res = Some imports" "root' = root"
    by (cases res; simp)+
  with fr rt pk pe n c cl that show thesis by simp
qed

lemma resolve_Resolved_keys:
  assumes "resolve w goos goarch ignore module stdlib s = (s', Resolved root imports)"
  obtains pkgs imps where
    "packages_Load w goos goarch (filepath_Join w root ''...'') = Inr pkgs"
    "collect w ignore pkgs [] = Some imps"
    "set imports \<subseteq> fst ` set imps"
proof -
  from assms obtain s1 pkgs s3 imps where
    a: "packages_Load w goos goarch (filepath_Join w root ''...'') = Inr pkgs"
       "collect w ignore pkgs [] = Some imps"
       "classify w goos goarch stdlib (imps_range w imps) [] s3 = (s', Some imports)"
    by (rule resolve_ResolvedE)
  from classify_subset[OF a(3)] have "set imports \<subseteq> fst ` set imps"
    by (simp add: imps_range_def)
  with a that show thesis by blast
qed

lemma analyse_Resolved:
  "resolve w goos goarch ignore module stdlib s = (s1, Resolved root imports) \<Longrightarrow>
     analyse w goos goarch ignore module list lock stdlib verbose noBuiltin custom s
     = dispatch w goos goarch list lock verbose noBuiltin custom root imports s1"
  by (simp add: analyse_def)

lemma analyse_Aborted:
  "resolve w goos goarch ignore module stdlib s = (s1, Aborted out) \<Longrightarrow>
     analyse w goos goarch ignore module list lock stdlib verbose noBuiltin custom s = (s1, out)"
  by (simp add: analyse_def)

lemma capslock_buf: "capslock w goos goarch pkgs format path custom noBuiltin s \<noteq> (s1, None, None)"
  by (auto simp: capslock_def Let_def split: option.splits)

lemma analyse_moduleRoot_error:
  "moduleRoot w s = (s1, root, valid, Some err) \<Longrightarrow>
     analyse w goos goarch ignore module list lock stdlib verbose noBuiltin custom s
     = (Fprintln_Stderr err s1, Exit (if valid then invocationError else internalError))"
  by (simp add: analyse_def resolve_def find_root_def)


lemma find_root_Getwd:
  "moduleRoot w s = (s1, root, valid, None) \<Longrightarrow> os_Getwd w = Inr cwd \<Longrightarrow>
     find_root w False s = (call Getwd s1, Inr cwd)"
  by (simp add: find_root_def Let_def)

lemma find_root_module:
  "moduleRoot w s = (s1, root, valid, None) \<Longrightarrow> find_root w True s = (s1, Inr root)"
  by (simp add: find_root_def)

lemma resolve_root:
  assumes "find_root w module s = (s1, Inr root)"
    and "resolve w goos goarch ignore module stdlib s = (s', Resolved r imports)"
  shows "r = root"
  using resolve_ResolvedE[OF assms(2)] assms(1) by (metis Pair_inject sum.inject(2))

lemma resolve_Panic:
  assumes r: "resolve w goos goarch ignore module stdlib s = (s', Aborted Panic)"
  obtains root pkgs where
    "packages_Load w goos goarch (filepath_Join w root ''...'') = Inr pkgs"
    "collect w ignore pkgs [] = None"
proof -
  obtain s1 rt where fr: "find_root w module s = (s1, rt)"
    by (cases "find_root w module s") auto
  from r fr obtain root where rt: "rt = Inr root"
    by (cases rt) (auto simp: resolve_def)
  let ?pat = "filepath_Join w root ''...''"
  let ?s2 = "call (Load [''GOOS='' @ goos, ''GOARCH='' @ goarch] ?pat) s1"
  from r fr rt obtain pkgs where pk: "packages_Load w goos goarch ?pat = Inr pkgs"
    by (cases "packages_Load w goos goarch ?pat") (auto simp: resolve_def Let_def)
  obtain s3 n where pe: "PrintErrors pkgs ?s2 = (s3, n)"
    by (cases "PrintErrors pkgs ?s2") auto
  have "collect w ignore pkgs [] = None"
  proof (cases "collect w ignore pkgs []")
    case None
    then show ?thesis .
  next
    case (Some imps)
    obtain s4 res where cl: "classify w goos goarch stdlib (imps_range w imps) [] s3 = (s4, res)"
      by (cases "classify w goos goarch stdlib (imps_range w imps) [] s3") auto
    from r fr rt pk pe Some cl have False
      by (cases res; cases "n = 0"; simp add: resolve_def Let_def)
    then show ?thesis ..
  qed
  with pk that show thesis by blast
qed

lemma resolve_collect_None:
  assumes fr: "find_root w module s = (s1, Inr root)"
    and pk: "packages_Load w goos goarch (filepath_Join w root ''...'') = Inr pkgs"
    and er: "\<forall>pkg\<in>set pkgs. Errors pkg = []"
    and c: "collect w ignore pkgs [] = None"
  shows "snd (resolve w goos goarch ignore module stdlib s) = Aborted Panic"
proof -
  from er have "concat (map Errors pkgs) = []" by simp
  then have "snd (PrintErrors pkgs t) = 0" for t
    by (simp add: PrintErrors_def Let_def)
  then show ?thesis
    using fr pk c by (simp add: resolve_def Let_def split_def)
qed

lemma dispatch_no_panic:
  "snd (dispatch w goos goarch list lock verbose noBuiltin custom root imports s) \<noteq> Panic"
proof (cases list)
  case True
  then show ?thesis by (simp add: dispatch_def)
next
  case nl: False
  show ?thesis
  proof (cases lock)
    case True
    obtain s1 buf err where c1:
      "capslock w goos goarch imports ''verbose'' (filepath_Join w root ''caps.summary'') custom noBuiltin s
         = (s1, buf, err)"
      by (metis prod.collapse)
    show ?thesis
    proof (cases err)
      case (Some e)
      with nl True c1 show ?thesis by (simp add: dispatch_def)
    next
      case None
      define s2 where "s2 = (if verbose then Println (case buf of None \<Rightarrow> ''<nil>'' | Some b \<Rightarrow> b) s1 else s1)"
      obtain s3 buf' err' where c2:
        "capslock w goos goarch imports ''json'' (filepath_Join w root ''caps.lock'') custom noBuiltin s2
           = (s3, buf', err')"
        by (metis prod.collapse)
      from nl True c1 None c2 show ?thesis
        by (cases err') (simp_all add: dispatch_def Let_def s2_def)
    qed
  next
    case False
    obtain s1 buf err where c1:
      "capslock w goos goarch imports ''compare'' (filepath_Join w root ''caps.lock'') custom noBuiltin s
         = (s1, buf, err)"
      by (metis prod.collapse)
    show ?thesis
    proof (cases err)
      case (Some e)
      with nl False c1 show ?thesis by (simp add: dispatch_def)
    next
      case None
      with c1 capslock_buf[of w goos goarch "imports" "''compare''" _ custom noBuiltin s s1]
      obtain b where "buf = Some b" by (cases buf) auto
      with nl False c1 None show ?thesis by (simp add: dispatch_def Let_def)
    qed
  qed
qed

lemma foldl_Println:
  "foldl (\<lambda>t i. Println i t) s xs = s\<lparr>stdout := stdout s @ concat (map (\<lambda>i. i @ [CHR 0x0A]) xs)\<rparr>"
  by (induction xs arbitrary: s) (simp_all add: Println_def)

lemma dispatch_list:
  "dispatch w goos goarch True lock verbose noBuiltin custom root imports s
     = (s\<lparr>stdout := stdout s @ concat (map (\<lambda>i. i @ [CHR 0x0A]) (sort imports))\<rparr>, Exit 0)"
  by (simp add: dispatch_def foldl_Println exit_codes)

lemma capslock_trace:
  "prefix (trace s @ [Exec ''capslock'' (capslock_args goos goarch pkgs format path custom noBuiltin) []])
     (trace (fst (capslock w goos goarch pkgs format path custom noBuiltin s)))"
  by (simp add: capslock_def Let_def call_def split: option.splits)

lemma capslock_run_failed:
  "run_err (capslock_bin w (capslock_args goos goarch pkgs format path custom noBuiltin)) = Some e \<Longrightarrow>
     capslock w goos goarch pkgs format path custom noBuiltin s
     = (call (Exec ''capslock'' (capslock_args goos goarch pkgs format path custom noBuiltin) []) s, None,
        Some (''capslock: '' @ e @ '': ''
              @ proc_stderr (capslock_bin w (capslock_args goos goarch pkgs format path custom noBuiltin))))"
  by (simp add: capslock_def Let_def)

lemma capslock_write_failed:
  "format \<noteq> ''compare'' \<Longrightarrow>
   run_err (capslock_bin w (capslock_args goos goarch pkgs format path custom noBuiltin)) = None \<Longrightarrow>
   os_WriteFile w path (proc_stdout (capslock_bin w (capslock_args goos goarch pkgs format path custom noBuiltin))) = Some e \<Longrightarrow>
     capslock w goos goarch pkgs format path custom noBuiltin s
     = (call (WriteFile path (proc_stdout (capslock_bin w (capslock_args goos goarch pkgs format path custom noBuiltin))))
          (call (Exec ''capslock'' (capslock_args goos goarch pkgs format path custom noBuiltin) []) s),
        Some (proc_stdout (capslock_bin w (capslock_args goos goarch pkgs format path custom noBuiltin))), Some e)"
  by (simp add: capslock_def Let_def)

lemma capslock_written:
  "format \<noteq> ''compare'' \<Longrightarrow>
   run_err (capslock_bin w (capslock_args goos goarch pkgs format path custom noBuiltin)) = None \<Longrightarrow>
   os_WriteFile w path (proc_stdout (capslock_bin w (capslock_args goos goarch pkgs format path custom noBuiltin))) = None \<Longrightarrow>
     capslock w goos goarch pkgs format path custom noBuiltin s
     = ((call (WriteFile path (proc_stdout (capslock_bin w (capslock_args goos goarch pkgs format path custom noBuiltin))))
          (call (Exec ''capslock'' (capslock_args goos goarch pkgs format path custom noBuiltin) []) s))
        \<lparr>files := (files s)(path \<mapsto> proc_stdout (capslock_bin w (capslock_args goos goarch pkgs format path custom noBuiltin)))\<rparr>,
        Some (proc_stdout (capslock_bin w (capslock_args goos goarch pkgs format path custom noBuiltin))), None)"
  by (simp add: capslock_def Let_def call_def)

lemma capslock_trace_mono:
  "prefix (trace s) (trace (fst (capslock w goos goarch pkgs format path custom noBuiltin s)))"
  using capslock_trace[of s goos goarch pkgs format path custom noBuiltin w]
  by (rule append_prefixD)

lemma dispatch_first_call:
  assumes "\<not> list"
  shows "prefix (trace s @ [Exec ''capslock''
             (capslock_args goos goarch imports (if lock then ''verbose'' else ''compare'')
                (filepath_Join w root (if lock then ''caps.summary'' else ''caps.lock'')) custom noBuiltin) []])
           (trace (fst (dispatch w goos goarch list lock verbose noBuiltin custom root imports s)))"
proof (cases lock)
  case True
  let ?c1 = "capslock w goos goarch imports ''verbose'' (filepath_Join w root ''caps.summary'') custom noBuiltin s"
  obtain s1 buf err where c1: "?c1 = (s1, buf, err)" by (cases ?c1) auto
  have p1: "prefix (trace s @ [Exec ''capslock''
             (capslock_args goos goarch imports ''verbose'' (filepath_Join w root ''caps.summary'') custom noBuiltin) []])
             (trace s1)"
    using capslock_trace[of s goos goarch "imports" "''verbose''" "filepath_Join w root ''caps.summary''" custom noBuiltin w] c1
    by simp
  show ?thesis
  proof (cases err)
    case (Some e)
    with assms True c1 p1 show ?thesis by (simp add: dispatch_def Fprintln_Stderr_def)
  next
    case None
    define s2 where "s2 = (if verbose then Println (case buf of None \<Rightarrow> ''<nil>'' | Some b \<Rightarrow> b) s1 else s1)"
    have t2: "trace s2 = trace s1" by (simp add: s2_def Println_def)
    let ?c2 = "capslock w goos goarch imports ''json'' (filepath_Join w root ''caps.lock'') custom noBuiltin s2"
    obtain s3 buf' err' where c2: "?c2 = (s3, buf', err')" by (cases ?c2) auto
    have "prefix (trace s2) (trace s3)"
      using capslock_trace_mono[of s2 w goos goarch "imports" "''json''" "filepath_Join w root ''caps.lock''" custom noBuiltin] c2
      by simp
    with p1 t2 have p3: "prefix (trace s @ [Exec ''capslock''
             (capslock_args goos goarch imports ''verbose'' (filepath_Join w root ''caps.summary'') custom noBuiltin) []])
             (trace s3)"
      by (simp add: prefix_order.trans)
    from assms True c1 None c2 p3 show ?thesis
      by (cases err') (simp_all add: dispatch_def Let_def s2_def Fprintln_Stderr_def)
  qed
next
  case False
  let ?c1 = "capslock w goos goarch imports ''compare'' (filepath_Join w root ''caps.lock'') custom noBuiltin s"
  obtain s1 buf err where c1: "?c1 = (s1, buf, err)" by (cases ?c1) auto
  have p1: "prefix (trace s @ [Exec ''capslock''
             (capslock_args goos goarch imports ''compare'' (filepath_Join w root ''caps.lock'') custom noBuiltin) []])
             (trace s1)"
    using capslock_trace[of s goos goarch "imports" "''compare''" "filepath_Join w root ''caps.lock''" custom noBuiltin w] c1
    by simp
  from assms False c1 p1 show ?thesis
    by (cases err; cases buf) (simp_all add: dispatch_def Let_def Fprintln_Stderr_def Print_def)
qed

lemma import_of_own_modules_excluded:
  assumes "resolve w goos goarch ignore module stdlib s = (s', Resolved root imports)"
    and "packages_Load w goos goarch (filepath_Join w root ''...'') = Inr pkgs"
    and "\<forall>pkg\<in>set pkgs. I \<in> set (Imports pkg) \<longrightarrow> (\<exists>m. Module pkg = Some m \<and> prefix (Path m) I)"
  shows "I \<notin> set imports"
proof -
  from assms(1) obtain pkgs' imps where
    pk: "packages_Load w goos goarch (filepath_Join w root ''...'') = Inr pkgs'"
    and c: "collect w ignore pkgs' [] = Some imps" and sub: "set imports \<subseteq> fst ` set imps"
    by (rule resolve_Resolved_keys)
  from pk assms(2) have "pkgs' = pkgs" by simp
  with c have c': "collect w ignore pkgs [] = Some imps" by simp
  have "I \<notin> fst ` set imps"
    using collect_keys[OF c', of I] assms(3) by fastforce
  with sub show ?thesis by auto
qed

lemma resolve_Resolved_modules:
  assumes "resolve w goos goarch ignore module stdlib s = (s', Resolved root imports)"
    and "packages_Load w goos goarch (filepath_Join w root ''...'') = Inr pkgs"
    and "p \<in> set pkgs" and "Imports p \<noteq> []"
  shows "Module p \<noteq> None"
proof -
  from assms(1) obtain pkgs' imps where
    pk: "packages_Load w goos goarch (filepath_Join w root ''...'') = Inr pkgs'"
    and c: "collect w ignore pkgs' [] = Some imps"
    by (rule resolve_Resolved_keys)
  from pk assms(2) have "pkgs' = pkgs" by simp
  with c have "collect w ignore pkgs [] \<noteq> None" by simp
  then have "\<not> (\<exists>pkg\<in>set pkgs. Module pkg = None \<and> Imports pkg \<noteq> [])"
    by (simp add: collect_None)
  with assms(3,4) show ?thesis by auto
qed

section \<open>Properties of the program\<close>

text \<open>
  C1. In comparing mode (neither \<open>-imports\<close> nor \<open>-lock\<close>), once the imports are resolved
  and the analyzer has run without error, its output is appended to standard output
  unchanged, and the exit code is 4 when that output is non-empty and 0 when it is empty.
\<close>

theorem compare_output_echoed_and_exit_code:
  assumes res: "resolve w goos goarch ignore module stdlib s = (s1, Resolved root imports)"
    and run: "run_err (capslock_bin w (capslock_args goos goarch imports ''compare''
                 (filepath_Join w root ''caps.lock'') custom noBuiltin)) = None"
  shows "stdout (fst (analyse w goos goarch ignore module False False stdlib verbose noBuiltin custom s))
           = stdout s @ proc_stdout (capslock_bin w (capslock_args goos goarch imports ''compare''
                 (filepath_Join w root ''caps.lock'') custom noBuiltin))
         \<and> snd (analyse w goos goarch ignore module False False stdlib verbose noBuiltin custom s)
           = Exit (if proc_stdout (capslock_bin w (capslock_args goos goarch imports ''compare''
                 (filepath_Join w root ''caps.lock'') custom noBuiltin)) \<noteq> [] then 4 else 0)"
proof -
  from resolve_untouched[OF res] have "stdout s1 = stdout s" by (simp add: untouched_def)
  then show ?thesis
    using run by (simp add: analyse_Resolved[OF res] dispatch_def capslock_def Let_def Print_def call_def exit_codes)
qed

theorem compare_output_echoed_and_exit_code_witness:
  "snd (resolve drift_world ''linux'' ''amd64'' [] True False sys0)
     = Resolved ''/src/m'' [''github.com/b/dep'', ''github.com/z/ignored'', ''github.com/a/lib'']
   \<and> stdout (fst (analyse drift_world ''linux'' ''amd64'' [] True False False False False False [] sys0))
     = ''+ github.com/b/dep NETWORK''
   \<and> snd (analyse drift_world ''linux'' ''amd64'' [] True False False False False False [] sys0) = Exit 4"
proof -
  have r: "snd (resolve drift_world ''linux'' ''amd64'' [] True False sys0)
     = Resolved ''/src/m'' [''github.com/b/dep'', ''github.com/z/ignored'', ''github.com/a/lib'']"
    by code_simp
  then obtain s1 where res: "resolve drift_world ''linux'' ''amd64'' [] True False sys0
     = (s1, Resolved ''/src/m'' [''github.com/b/dep'', ''github.com/z/ignored'', ''github.com/a/lib''])"
    by (cases "resolve drift_world ''linux'' ''amd64'' [] True False sys0") auto
  have run: "run_err (capslock_bin drift_world (capslock_args ''linux'' ''amd64''
      [''github.com/b/dep'', ''github.com/z/ignored'', ''github.com/a/lib''] ''compare''
      (filepath_Join drift_world ''/src/m'' ''caps.lock'') [] False)) = None"
    by (simp add: drift_world_def ran_def)
  from compare_output_echoed_and_exit_code[OF res run, of False] r show ?thesis
    by (simp add: drift_world_def ran_def sys0_def)
qed

text \<open>
  C2, as the code has it. The module-root query runs first on every invocation, and when
  it fails the run ends there with the exit code of the failure, whether or not the module
  is included. When the query succeeds and the module is not included (\<open>-mod=false\<close>),
  the current working directory is asked for next, the packages are loaded from it and it
  is the root of the resolution; when the module is included the root is the module root.
\<close>

theorem module_root_query_and_root:
  "(\<forall>s1 root valid err. moduleRoot w s = (s1, root, valid, Some err) \<longrightarrow>
       analyse w goos goarch ignore module list lock stdlib verbose noBuiltin custom s
         = (Fprintln_Stderr err s1, Exit (if valid then 2 else 1)))
   \<and> (\<forall>s1 root valid cwd s' r imports.
         moduleRoot w s = (s1, root, valid, None) \<and> \<not> module \<and> os_Getwd w = Inr cwd \<longrightarrow>
           prefix (trace s @ [Exec ''go'' [''env'', ''GOMOD''] [], Getwd,
                     Load [''GOOS='' @ goos, ''GOARCH='' @ goarch] (filepath_Join w cwd ''...'')])
                  (trace (fst (resolve w goos goarch ignore module stdlib s)))
           \<and> (resolve w goos goarch ignore module stdlib s = (s', Resolved r imports) \<longrightarrow> r = cwd))
   \<and> (\<forall>s1 root valid s' r imports.
         moduleRoot w s = (s1, root, valid, None) \<and> module
         \<and> resolve w goos goarch ignore module stdlib s = (s', Resolved r imports) \<longrightarrow> r = root)"
proof -
  have A: "analyse w goos goarch ignore module list lock stdlib verbose noBuiltin custom s
         = (Fprintln_Stderr err s1, Exit (if valid then 2 else 1))"
    if "moduleRoot w s = (s1, root, valid, Some err)" for s1 root valid err
    using that by (simp add: analyse_moduleRoot_error exit_codes)
  have B: "prefix (trace s @ [Exec ''go'' [''env'', ''GOMOD''] [], Getwd,
                     Load [''GOOS='' @ goos, ''GOARCH='' @ goarch] (filepath_Join w cwd ''...'')])
                  (trace (fst (resolve w goos goarch ignore module stdlib s)))
           \<and> (resolve w goos goarch ignore module stdlib s = (s', Resolved r targets) \<longrightarrow> r = cwd)"
    if a: "moduleRoot w s = (s1, root, valid, None) \<and> \<not> module \<and> os_Getwd w = Inr cwd"
    for s1 root valid cwd s' r targets
  proof -
    from a have fr: "find_root w module s = (call Getwd s1, Inr cwd)"
      using find_root_Getwd[of w s s1 root valid cwd] by simp
    from a have s1: "s1 = call (Exec ''go'' [''env'', ''GOMOD''] []) s"
      by (auto dest: moduleRoot_state)
    from resolve_after_root[OF fr, of goos goarch ignore stdlib]
    have "prefix (trace s @ [Exec ''go'' [''env'', ''GOMOD''] [], Getwd,
                     Load [''GOOS='' @ goos, ''GOARCH='' @ goarch] (filepath_Join w cwd ''...'')])
                  (trace (fst (resolve w goos goarch ignore module stdlib s)))"
      by (simp add: untouched_def s1 call_def)
    moreover have "resolve w goos goarch ignore module stdlib s = (s', Resolved r targets) \<longrightarrow> r = cwd"
      using resolve_root[OF fr] by blast
    ultimately show ?thesis by simp
  qed
  have C: "r = root"
    if a: "moduleRoot w s = (s1, root, valid, None) \<and> module
         \<and> resolve w goos goarch ignore module stdlib s = (s', Resolved r targets)"
    for s1 root valid s' r targets
  proof -
    from a have "find_root w module s = (s1, Inr root)"
      using find_root_module[of w s s1 root valid] by simp
    with a show "r = root" using resolve_root by blast
  qed
  from A B C show ?thesis by blast
qed

theorem module_root_query_and_root_witness:
  "snd (analyse nomod_world ''linux'' ''amd64'' [] False False False True False False [] sys0) = Exit 2
   \<and> os_Getwd demo_world = Inr ''/src/m/internal''
   \<and> prefix [Exec ''go'' [''env'', ''GOMOD''] [], Getwd,
              Load [''GOOS=linux'', ''GOARCH=amd64''] ''/src/m/internal/...'']
        (trace (fst (resolve demo_world ''linux'' ''amd64'' [] False True sys0)))
   \<and> snd (resolve demo_world ''linux'' ''amd64'' [] False True sys0)
      = Resolved ''/src/m/internal'' [''os'', ''github.com/a/lib'', ''github.com/b/dep'']
   \<and> snd (resolve demo_world ''linux'' ''amd64'' [] True True sys0)
      = Resolved ''/src/m'' [''fmt'', ''github.com/b/dep'', ''github.com/z/ignored'', ''os'', ''github.com/a/lib'']"
proof -
  let ?g = "call (Exec ''go'' [''env'', ''GOMOD''] []) sys0"
  have m1: "moduleRoot nomod_world sys0 = (?g, [], True, Some ''no go.mod'')"
    by (simp add: moduleRoot_def nomod_world_def demo_world_def ran_def TrimSpace_def isSpace_def)
  have m2: "moduleRoot demo_world sys0 = (?g, ''/src/m'', True, None)"
    by (simp add: moduleRoot_def demo_world_def ran_def TrimSpace_def isSpace_def)
  have wd: "os_Getwd demo_world = Inr ''/src/m/internal''"
    by (simp add: demo_world_def)
  have r1: "snd (resolve demo_world ''linux'' ''amd64'' [] False True sys0)
      = Resolved ''/src/m/internal'' [''os'', ''github.com/a/lib'', ''github.com/b/dep'']"
    by code_simp
  have r2: "snd (resolve demo_world ''linux'' ''amd64'' [] True True sys0)
      = Resolved ''/src/m'' [''fmt'', ''github.com/b/dep'', ''github.com/z/ignored'', ''os'', ''github.com/a/lib'']"
    by code_simp
  obtain s2 where e2: "resolve demo_world ''linux'' ''amd64'' [] True True sys0
      = (s2, Resolved ''/src/m'' [''fmt'', ''github.com/b/dep'', ''github.com/z/ignored'', ''os'', ''github.com/a/lib''])"
    using r2 by (cases "resolve demo_world ''linux'' ''amd64'' [] True True sys0") auto
  note A = module_root_query_and_root[where w=nomod_world and s=sys0 and goos="''linux''" and goarch="''amd64''"
      and ignore="[]" and module=False and list=False and lock=False and stdlib=True and verbose=False
      and noBuiltin=False and custom="[]", THEN conjunct1, rule_format, OF m1]
  note B = module_root_query_and_root[where w=demo_world and s=sys0 and goos="''linux''" and goarch="''amd64''"
      and ignore="[]" and module=False and list=False and lock=False and stdlib=True and verbose=False
      and noBuiltin=False and custom="[]", THEN conjunct2, THEN conjunct1, rule_format,
      OF conjI[OF m2 conjI[OF not_False_eq_True[THEN iffD2, OF TrueI] wd]], THEN conjunct1]
  note C = module_root_query_and_root[where w=demo_world and s=sys0 and goos="''linux''" and goarch="''amd64''"
      and ignore="[]" and module=True and list=False and lock=False and stdlib=True and verbose=False
      and noBuiltin=False and custom="[]", THEN conjunct2, THEN conjunct2, rule_format,
      OF conjI[OF m2 conjI[OF TrueI e2]]]
  from A have a: "snd (analyse nomod_world ''linux'' ''amd64'' [] False False False True False False [] sys0) = Exit 2"
    by simp
  from B have b: "prefix [Exec ''go'' [''env'', ''GOMOD''] [], Getwd,
              Load [''GOOS=linux'', ''GOARCH=amd64''] ''/src/m/internal/...'']
        (trace (fst (resolve demo_world ''linux'' ''amd64'' [] False True sys0)))"
    by (simp add: sys0_def demo_world_def)
  from a b wd r1 r2 C show ?thesis by simp
qed

text \<open>
  C2 as stated fails: with \<open>-mod=false\<close> in a directory whose module has no \<open>go.mod\<close>,
  the failure of the module-root query ends the run with exit code 2 before the working
  directory is ever asked for.
\<close>

theorem module_root_failure_aborts_without_mod_counterexample:
  "flag_mod (flags0\<lparr>flag_mod := False\<rparr>) = False
   \<and> snd (Main nomod_world (flags0\<lparr>flag_mod := False\<rparr>) sys0) = Exit invocationError
   \<and> stderr (fst (Main nomod_world (flags0\<lparr>flag_mod := False\<rparr>) sys0)) = ''no go.mod'' @ [CHR 0x0A]
   \<and> trace (fst (Main nomod_world (flags0\<lparr>flag_mod := False\<rparr>) sys0)) = [Exec ''go'' [''env'', ''GOMOD''] []]"
  by code_simp

text \<open>
  C3, as the code has it. When the module-root query cannot be run the program exits
  with the internal-error code 1. When the query runs and reports that the toolchain is
  not in module-aware mode (an empty \<open>GOMOD\<close>), the program exits with the
  invocation-error code 2, and so it does when there is no \<open>go.mod\<close> (\<open>GOMOD\<close> is the
  null device).
\<close>

theorem module_query_exit_codes:
  "(let R = analyse w goos goarch ignore module list lock stdlib verbose noBuiltin custom s;
        q = go_env_GOMOD w
    in (run_err q \<noteq> None \<longrightarrow> snd R = Exit 1)
     \<and> (run_err q = None \<and> TrimSpace (proc_stdout q) = [] \<longrightarrow>
          snd R = Exit 2 \<and> stderr (fst R) = stderr s @ ''go tool not running in module mode'' @ [CHR 0x0A])
     \<and> (run_err q = None \<and> TrimSpace (proc_stdout q) \<noteq> [] \<and> TrimSpace (proc_stdout q) = os_DevNull w \<longrightarrow>
          snd R = Exit 2 \<and> stderr (fst R) = stderr s @ ''no go.mod'' @ [CHR 0x0A]))"
proof -
  obtain s1 root valid err where m: "moduleRoot w s = (s1, root, valid, err)"
    by (cases "moduleRoot w s") auto
  have s1: "stderr s1 = stderr s"
    using moduleRoot_state[OF m] by (simp add: call_def)
  show ?thesis
  proof (cases "run_err (go_env_GOMOD w)")
    case (Some e)
    with m have "valid = False" "err = Some (''go env '' @ e @ '': '' @ proc_stderr (go_env_GOMOD w))"
      by (auto simp: moduleRoot_def Let_def)
    with Some analyse_moduleRoot_error[of w s s1 root valid _ goos goarch ignore module list lock stdlib verbose noBuiltin custom] m
    show ?thesis by (simp add: Let_def exit_codes)
  next
    case None
    show ?thesis
    proof (cases "TrimSpace (proc_stdout (go_env_GOMOD w)) = []")
      case True
      with None m have "valid = True" "err = Some ''go tool not running in module mode''"
        by (auto simp: moduleRoot_def Let_def)
      with None True s1 analyse_moduleRoot_error[of w s s1 root valid _ goos goarch ignore module list lock stdlib verbose noBuiltin custom] m
      show ?thesis by (simp add: Let_def exit_codes Fprintln_Stderr_def)
    next
      case False
      show ?thesis
      proof (cases "TrimSpace (proc_stdout (go_env_GOMOD w)) = os_DevNull w")
        case True
        with None False m have "valid = True" "err = Some ''no go.mod''"
          by (auto simp: moduleRoot_def Let_def)
        with None True False s1 analyse_moduleRoot_error[of w s s1 root valid _ goos goarch ignore module list lock stdlib verbose noBuiltin custom] m
        show ?thesis by (simp add: Let_def exit_codes Fprintln_Stderr_def)
      next
        case F2: False
        with None False show ?thesis by (simp add: Let_def)
      qed
    qed
  qed
qed

theorem module_query_exit_codes_witness:
  "snd (analyse goless_world ''linux'' ''amd64'' [] True False False False False False [] sys0) = Exit 1
   \<and> snd (analyse gopath_world ''linux'' ''amd64'' [] True False False False False False [] sys0) = Exit 2
   \<and> snd (analyse nomod_world ''linux'' ''amd64'' [] True False False False False False [] sys0) = Exit 2"
proof -
  have a: "run_err (go_env_GOMOD goless_world) \<noteq> None"
    by (simp add: goless_world_def broke_def)
  have b: "run_err (go_env_GOMOD gopath_world) = None \<and> TrimSpace (proc_stdout (go_env_GOMOD gopath_world)) = []"
    by (simp add: gopath_world_def ran_def TrimSpace_def isSpace_def)
  have c: "run_err (go_env_GOMOD nomod_world) = None \<and> TrimSpace (proc_stdout (go_env_GOMOD nomod_world)) \<noteq> []
           \<and> TrimSpace (proc_stdout (go_env_GOMOD nomod_world)) = os_DevNull nomod_world"
    by (simp add: nomod_world_def demo_world_def ran_def TrimSpace_def isSpace_def)
  from a module_query_exit_codes[of goless_world "''linux''" "''amd64''" "[]" True False False False False False "[]" sys0]
  have 1: "snd (analyse goless_world ''linux'' ''amd64'' [] True False False False False False [] sys0) = Exit 1"
    unfolding Let_def by blast
  from b module_query_exit_codes[of gopath_world "''linux''" "''amd64''" "[]" True False False False False False "[]" sys0]
  have 2: "snd (analyse gopath_world ''linux'' ''amd64'' [] True False False False False False [] sys0) = Exit 2"
    unfolding Let_def by blast
  from c module_query_exit_codes[of nomod_world "''linux''" "''amd64''" "[]" True False False False False False "[]" sys0]
  have 3: "snd (analyse nomod_world ''linux'' ''amd64'' [] True False False False False False [] sys0) = Exit 2"
    unfolding Let_def by blast
  from 1 2 3 show ?thesis by simp
qed

text \<open>
  C3 as stated fails: with a toolchain that is not in module-aware mode the exit code is
  the invocation-error code 2, not the internal-error code 1.
\<close>

theorem not_module_aware_exits_2_counterexample:
  "run_err (go_env_GOMOD gopath_world) = None
   \<and> TrimSpace (proc_stdout (go_env_GOMOD gopath_world)) = []
   \<and> stderr (fst (Main gopath_world flags0 sys0)) = ''go tool not running in module mode'' @ [CHR 0x0A]
   \<and> snd (Main gopath_world flags0 sys0) = Exit invocationError
   \<and> snd (Main gopath_world flags0 sys0) \<noteq> Exit internalError"
  by code_simp

text \<open>
  C4. When \<open>-disable_builtin\<close> is set and \<open>-capability_map\<close> is empty, the program exits
  with the invocation-error code 2, and it has made no call to the outside by then: no
  process was run, nothing was loaded, no file written and nothing printed to standard
  output; the message goes to standard error.
\<close>

theorem disable_builtin_requires_capability_map:
  assumes "flag_disable_builtin f" and "flag_capability_map f = []"
  shows "snd (Main w f s) = Exit 2
         \<and> trace (fst (Main w f s)) = trace s
         \<and> files (fst (Main w f s)) = files s
         \<and> stdout (fst (Main w f s)) = stdout s
         \<and> stderr (fst (Main w f s)) = stderr s @ ''disable_builtin requires capability_map'' @ [CHR 0x0A]"
  using assms by (simp add: Main_def Let_def split_def Fprintln_Stderr_def exit_codes)

theorem disable_builtin_requires_capability_map_witness:
  "snd (Main demo_world (flags0\<lparr>flag_disable_builtin := True\<rparr>) sys0) = Exit 2
   \<and> trace (fst (Main demo_world (flags0\<lparr>flag_disable_builtin := True\<rparr>) sys0)) = []"
  using disable_builtin_requires_capability_map[of "flags0\<lparr>flag_disable_builtin := True\<rparr>" demo_world sys0]
  by (simp add: flags0_def sys0_def)

text \<open>
  C5. Let the ignore patterns \<open>P\<close> all compile, so that the matchers are exactly the
  patterns as the user gave them. If some pattern of \<open>P\<close> matches the import path \<open>I\<close>
  (by \<open>MatchString\<close>, the unanchored search of the regexp package), then \<open>match\<close> is true
  of \<open>I\<close> and \<open>I\<close> is not in the resolved import list, whatever the \<open>-stdlib\<close> flag and
  whatever the standard-library query says of \<open>I\<close>.
\<close>

theorem ignored_import_excluded:
  assumes "regexps w P = (ignore, None)" and "p \<in> set P" and "regexp_MatchString w p I"
    and "resolve w goos goarch ignore module stdlib s = (s', Resolved root imports)"
  shows "match w ignore I \<and> I \<notin> set imports"
proof -
  from assms(1-3) have m: "match w ignore I"
    by (auto simp: match_iff dest: regexps_set)
  from assms(4) obtain pkgs imps where
    c: "collect w ignore pkgs [] = Some imps" and sub: "set imports \<subseteq> fst ` set imps"
    by (rule resolve_Resolved_keys)
  have "I \<notin> fst ` set imps"
    using collect_keys[OF c, of I] m by auto
  with m sub show ?thesis by auto
qed

theorem ignored_import_excluded_witness:
  "regexps demo_world [''fmt''] = ([''fmt''], None)
   \<and> regexp_MatchString demo_world ''fmt'' ''fmt''
   \<and> snd (resolve demo_world ''linux'' ''amd64'' [''fmt''] True True sys0)
       = Resolved ''/src/m'' [''github.com/b/dep'', ''github.com/z/ignored'', ''os'', ''github.com/a/lib'']
   \<and> ''fmt'' \<notin> set [''github.com/b/dep'', ''github.com/z/ignored'', ''os'', ''github.com/a/lib'']"
proof -
  have a: "regexps demo_world [''fmt''] = ([''fmt''], None)" by code_simp
  have b: "regexp_MatchString demo_world ''fmt'' ''fmt''" by code_simp
  have r: "snd (resolve demo_world ''linux'' ''amd64'' [''fmt''] True True sys0)
       = Resolved ''/src/m'' [''github.com/b/dep'', ''github.com/z/ignored'', ''os'', ''github.com/a/lib'']"
    by code_simp
  then obtain s' where res: "resolve demo_world ''linux'' ''amd64'' [''fmt''] True True sys0
       = (s', Resolved ''/src/m'' [''github.com/b/dep'', ''github.com/z/ignored'', ''os'', ''github.com/a/lib''])"
    by (cases "resolve demo_world ''linux'' ''amd64'' [''fmt''] True True sys0") auto
  from ignored_import_excluded[OF a _ b res] a b r show ?thesis by simp
qed

text \<open>
  C6. The packages of one load of \<open>root/...\<close> belong to one module: every loaded package
  that carries module metadata has the same module path. Then for every loaded package
  and every direct import of it, an import whose path is prefixed by the owning package's
  module path is not in the resolved import list.
\<close>

theorem self_module_import_excluded:
  assumes res: "resolve w goos goarch ignore module stdlib s = (s', Resolved root imports)"
    and pk: "packages_Load w goos goarch (filepath_Join w root ''...'') = Inr pkgs"
    and one: "\<forall>p\<in>set pkgs. \<forall>mp. Module p = Some mp \<longrightarrow> Path mp = Path m"
    and pkg: "pkg \<in> set pkgs" and imp: "I \<in> set (Imports pkg)"
    and own: "Module pkg = Some m" and pre: "prefix (Path m) I"
  shows "I \<notin> set imports"
proof -
  have "\<exists>mp. Module p = Some mp \<and> prefix (Path mp) I"
    if p: "p \<in> set pkgs" and i: "I \<in> set (Imports p)" for p
  proof -
    from i have "Imports p \<noteq> []" by auto
    from resolve_Resolved_modules[OF res pk p this]
    obtain mp where mp: "Module p = Some mp" by auto
    with one p have "Path mp = Path m" by blast
    with mp pre show ?thesis by simp
  qed
  then have "\<forall>p\<in>set pkgs. I \<in> set (Imports p) \<longrightarrow> (\<exists>mp. Module p = Some mp \<and> prefix (Path mp) I)"
    by blast
  with res pk show ?thesis by (rule import_of_own_modules_excluded)
qed

theorem self_module_import_excluded_witness:
  "snd (resolve demo_world ''linux'' ''amd64'' [] True True sys0)
       = Resolved ''/src/m'' [''fmt'', ''github.com/b/dep'', ''github.com/z/ignored'', ''os'', ''github.com/a/lib'']
   \<and> packages_Load demo_world ''linux'' ''amd64'' (filepath_Join demo_world ''/src/m'' ''...'') = Inr [pkg_m, pkg_x]
   \<and> Module pkg_m = Some \<lparr>Path = ''example.com/m''\<rparr>
   \<and> Module pkg_x = Some \<lparr>Path = ''example.com/m''\<rparr>
   \<and> ''example.com/m/internal/x'' \<in> set (Imports pkg_m)
   \<and> prefix ''example.com/m'' ''example.com/m/internal/x''
   \<and> ''example.com/m/internal/x'' \<notin> set [''fmt'', ''github.com/b/dep'', ''github.com/z/ignored'', ''os'', ''github.com/a/lib'']"
proof -
  let ?imps = "[''fmt'', ''github.com/b/dep'', ''github.com/z/ignored'', ''os'', ''github.com/a/lib'']"
  have r: "snd (resolve demo_world ''linux'' ''amd64'' [] True True sys0) = Resolved ''/src/m'' ?imps"
    by code_simp
  then obtain s' where res: "resolve demo_world ''linux'' ''amd64'' [] True True sys0 = (s', Resolved ''/src/m'' ?imps)"
    by (cases "resolve demo_world ''linux'' ''amd64'' [] True True sys0") auto
  have pk: "packages_Load demo_world ''linux'' ''amd64'' (filepath_Join demo_world ''/src/m'' ''...'') = Inr [pkg_m, pkg_x]"
    by (simp add: demo_world_def)
  have mm: "Module pkg_m = Some \<lparr>Path = ''example.com/m''\<rparr>" and mx: "Module pkg_x = Some \<lparr>Path = ''example.com/m''\<rparr>"
    by (simp_all add: pkg_m_def pkg_x_def)
  have one: "\<forall>p\<in>set [pkg_m, pkg_x]. \<forall>mp. Module p = Some mp \<longrightarrow> Path mp = Path \<lparr>Path = ''example.com/m''\<rparr>"
    using mm mx by auto
  have pkg: "pkg_m \<in> set [pkg_m, pkg_x]" by simp
  have i: "''example.com/m/internal/x'' \<in> set (Imports pkg_m)"
    by (simp add: pkg_m_def)
  have pre: "prefix (Path \<lparr>Path = ''example.com/m''\<rparr>) ''example.com/m/internal/x''"
    by simp
  from self_module_import_excluded[OF res pk one pkg i mm pre] r pk mm mx i pre show ?thesis by simp
qed

text \<open>
  C7. In writing-baseline mode (\<open>-lock\<close> without \<open>-imports\<close>), with the imports resolved:
  the analyzer is run with the verbose format and its output written to \<open>caps.summary\<close>,
  then it is run with the json format and its output written to \<open>caps.lock\<close>, in this
  order, and the exit code is 0. If either run or either write fails the exit code is the
  internal-error code 1. Once the summary is written, its bytes followed by a newline are
  printed to standard output exactly when \<open>-v\<close> is set; if the summary step fails nothing
  is printed and the json run is not made.
\<close>

theorem lock_writes_summary_then_lock:
  assumes res: "resolve w goos goarch ignore module stdlib s = (s1, Resolved root imports)"
  shows "let sp = filepath_Join w root ''caps.summary'';
             lp = filepath_Join w root ''caps.lock'';
             a1 = capslock_args goos goarch imports ''verbose'' sp custom noBuiltin;
             a2 = capslock_args goos goarch imports ''json'' lp custom noBuiltin;
             r1 = capslock_bin w a1;
             r2 = capslock_bin w a2;
             ok1 = (run_err r1 = None \<and> os_WriteFile w sp (proc_stdout r1) = None);
             ok2 = (run_err r2 = None \<and> os_WriteFile w lp (proc_stdout r2) = None);
             R = analyse w goos goarch ignore module False True stdlib verbose noBuiltin custom s
         in (\<not> ok1 \<or> \<not> ok2 \<longrightarrow> snd R = Exit 1)
          \<and> (ok1 \<and> ok2 \<longrightarrow>
                snd R = Exit 0
                \<and> trace (fst R) = trace s1 @ [Exec ''capslock'' a1 [], WriteFile sp (proc_stdout r1),
                                              Exec ''capslock'' a2 [], WriteFile lp (proc_stdout r2)]
                \<and> files (fst R) = (files s)(sp \<mapsto> proc_stdout r1, lp \<mapsto> proc_stdout r2))
          \<and> (ok1 \<longrightarrow> stdout (fst R) = stdout s @ (if verbose then proc_stdout r1 @ [CHR 0x0A] else []))
          \<and> (\<not> ok1 \<longrightarrow> stdout (fst R) = stdout s
                \<and> Exec ''capslock'' a2 [] \<notin> set (drop (length (trace s1)) (trace (fst R))))"
proof -
  define sp where "sp = filepath_Join w root ''caps.summary''"
  define lp where "lp = filepath_Join w root ''caps.lock''"
  define a1 where "a1 = capslock_args goos goarch imports ''verbose'' sp custom noBuiltin"
  define a2 where "a2 = capslock_args goos goarch imports ''json'' lp custom noBuiltin"
  define r1 where "r1 = capslock_bin w a1"
  define r2 where "r2 = capslock_bin w a2"
  define R where "R = analyse w goos goarch ignore module False True stdlib verbose noBuiltin custom s"
  note defs = sp_def lp_def a1_def a2_def r1_def r2_def
  from resolve_untouched[OF res] have u: "stdout s1 = stdout s" "files s1 = files s"
    by (simp_all add: untouched_def)
  have ne: "a1 \<noteq> a2" by (simp add: a1_def a2_def capslock_args_def)
  have R: "R = dispatch w goos goarch False True verbose noBuiltin custom root imports s1"
    unfolding R_def by (rule analyse_Resolved[OF res])
  have v: "''verbose'' \<noteq> ''compare''" and j: "''json'' \<noteq> ''compare''" by simp_all
  have F1: "snd R = Exit 1 \<and> stdout (fst R) = stdout s \<and> Exec ''capslock'' a2 [] \<notin> set (drop (length (trace s1)) (trace (fst R)))"
    if "run_err r1 = Some e" for e
    using that u ne unfolding R dispatch_def
    by (simp add: capslock_run_failed[where format="''verbose''"] defs[symmetric]
        Fprintln_Stderr_def call_def exit_codes)
  have F2: "snd R = Exit 1 \<and> stdout (fst R) = stdout s \<and> Exec ''capslock'' a2 [] \<notin> set (drop (length (trace s1)) (trace (fst R)))"
    if "run_err r1 = None" "os_WriteFile w sp (proc_stdout r1) = Some e" for e
    using that u ne unfolding R dispatch_def
    by (simp add: capslock_write_failed[OF v] defs[symmetric] Fprintln_Stderr_def call_def exit_codes)
  define s2 where "s2 = (if verbose then Println (proc_stdout r1) else id)
     ((call (WriteFile sp (proc_stdout r1)) (call (Exec ''capslock'' a1 []) s1))\<lparr>files := (files s1)(sp \<mapsto> proc_stdout r1)\<rparr>)"
  have mid: "R = (case capslock w goos goarch imports ''json'' lp custom noBuiltin s2 of
                    (s3, buf', Some err) \<Rightarrow> (Fprintln_Stderr err s3, Exit internalError)
                  | (s3, buf', None) \<Rightarrow> (s3, Exit success))"
    if "run_err r1 = None" "os_WriteFile w sp (proc_stdout r1) = None"
    using that unfolding R dispatch_def
    by (simp add: capslock_written[OF v] defs[symmetric] s2_def Let_def)
  have s2: "stdout s2 = stdout s @ (if verbose then proc_stdout r1 @ [CHR 0x0A] else [])"
    "trace s2 = trace s1 @ [Exec ''capslock'' a1 [], WriteFile sp (proc_stdout r1)]"
    "files s2 = (files s)(sp \<mapsto> proc_stdout r1)"
    using u by (simp_all add: s2_def Println_def call_def)
  have G1: "snd R = Exit 1 \<and> stdout (fst R) = stdout s @ (if verbose then proc_stdout r1 @ [CHR 0x0A] else [])"
    if "run_err r1 = None" "os_WriteFile w sp (proc_stdout r1) = None" "run_err r2 = Some e" for e
    using that(3) s2 unfolding mid[OF that(1,2)]
    by (simp add: capslock_run_failed[where format="''json''"] defs[symmetric]
        Fprintln_Stderr_def call_def exit_codes)
  have G2: "snd R = Exit 1 \<and> stdout (fst R) = stdout s @ (if verbose then proc_stdout r1 @ [CHR 0x0A] else [])"
    if "run_err r1 = None" "os_WriteFile w sp (proc_stdout r1) = None"
       "run_err r2 = None" "os_WriteFile w lp (proc_stdout r2) = Some e" for e
    using that(3,4) s2 unfolding mid[OF that(1,2)]
    by (simp add: capslock_write_failed[OF j] defs[symmetric] Fprintln_Stderr_def call_def exit_codes)
  have G3: "snd R = Exit 0 \<and> stdout (fst R) = stdout s @ (if verbose then proc_stdout r1 @ [CHR 0x0A] else [])
            \<and> trace (fst R) = trace s1 @ [Exec ''capslock'' a1 [], WriteFile sp (proc_stdout r1),
                                              Exec ''capslock'' a2 [], WriteFile lp (proc_stdout r2)]
            \<and> files (fst R) = (files s)(sp \<mapsto> proc_stdout r1, lp \<mapsto> proc_stdout r2)"
    if "run_err r1 = None" "os_WriteFile w sp (proc_stdout r1) = None"
       "run_err r2 = None" "os_WriteFile w lp (proc_stdout r2) = None"
    using that(3,4) s2 unfolding mid[OF that(1,2)]
    by (simp add: capslock_written[OF j] defs[symmetric] call_def exit_codes)
  have "(\<not> (run_err r1 = None \<and> os_WriteFile w sp (proc_stdout r1) = None)
          \<or> \<not> (run_err r2 = None \<and> os_WriteFile w lp (proc_stdout r2) = None) \<longrightarrow> snd R = Exit 1)
      \<and> ((run_err r1 = None \<and> os_WriteFile w sp (proc_stdout r1) = None)
          \<and> (run_err r2 = None \<and> os_WriteFile w lp (proc_stdout r2) = None) \<longrightarrow>
            snd R = Exit 0
            \<and> trace (fst R) = trace s1 @ [Exec ''capslock'' a1 [], WriteFile sp (proc_stdout r1),
                                          Exec ''capslock'' a2 [], WriteFile lp (proc_stdout r2)]
            \<and> files (fst R) = (files s)(sp \<mapsto> proc_stdout r1, lp \<mapsto> proc_stdout r2))
      \<and> ((run_err r1 = None \<and> os_WriteFile w sp (proc_stdout r1) = None) \<longrightarrow>
            stdout (fst R) = stdout s @ (if verbose then proc_stdout r1 @ [CHR 0x0A] else []))
      \<and> (\<not> (run_err r1 = None \<and> os_WriteFile w sp (proc_stdout r1) = None) \<longrightarrow>
            stdout (fst R) = stdout s
            \<and> Exec ''capslock'' a2 [] \<notin> set (drop (length (trace s1)) (trace (fst R))))"
    using F1 F2 G1 G2 G3
    by (cases "run_err r1"; cases "os_WriteFile w sp (proc_stdout r1)";
        cases "run_err r2"; cases "os_WriteFile w lp (proc_stdout r2)") simp_all
  then show ?thesis
    unfolding Let_def defs R_def .
qed

theorem lock_writes_summary_then_lock_witness:
  "snd (analyse demo_world ''linux'' ''amd64'' [] True False True False True False [] sys0) = Exit 0
   \<and> stdout (fst (analyse demo_world ''linux'' ''amd64'' [] True False True False True False [] sys0))
       = ''summary'' @ [CHR 0x0A]
   \<and> files (fst (analyse demo_world ''linux'' ''amd64'' [] True False True False True False [] sys0))
       = [''/src/m/caps.summary'' \<mapsto> ''summary'', ''/src/m/caps.lock'' \<mapsto> ''{}'']
   \<and> snd (analyse readonly_world ''linux'' ''amd64'' [] True False True False True False [] sys0) = Exit 1
   \<and> stdout (fst (analyse readonly_world ''linux'' ''amd64'' [] True False True False True False [] sys0)) = []"
proof -
  let ?imps = "[''github.com/b/dep'', ''github.com/z/ignored'', ''github.com/a/lib'']"
  let ?R = "analyse demo_world ''linux'' ''amd64'' [] True False True False True False [] sys0"
  let ?R' = "analyse readonly_world ''linux'' ''amd64'' [] True False True False True False [] sys0"
  have "snd (resolve demo_world ''linux'' ''amd64'' [] True False sys0) = Resolved ''/src/m'' ?imps"
    by code_simp
  then obtain s1 where res: "resolve demo_world ''linux'' ''amd64'' [] True False sys0 = (s1, Resolved ''/src/m'' ?imps)"
    by (cases "resolve demo_world ''linux'' ''amd64'' [] True False sys0") auto
  have "snd (resolve readonly_world ''linux'' ''amd64'' [] True False sys0) = Resolved ''/src/m'' ?imps"
    by code_simp
  then obtain s1' where res': "resolve readonly_world ''linux'' ''amd64'' [] True False sys0 = (s1', Resolved ''/src/m'' ?imps)"
    by (cases "resolve readonly_world ''linux'' ''amd64'' [] True False sys0") auto
  have j: "filepath_Join demo_world ''/src/m'' ''caps.summary'' = ''/src/m/caps.summary''"
    "filepath_Join demo_world ''/src/m'' ''caps.lock'' = ''/src/m/caps.lock''"
    "filepath_Join readonly_world ''/src/m'' ''caps.summary'' = ''/src/m/caps.summary''"
    "filepath_Join readonly_world ''/src/m'' ''caps.lock'' = ''/src/m/caps.lock''"
    by (simp_all add: readonly_world_def demo_world_def)
  have ev: "capslock_bin demo_world (capslock_args ''linux'' ''amd64'' ?imps ''verbose'' ''/src/m/caps.summary'' [] False) = ran ''summary''"
    "capslock_bin demo_world (capslock_args ''linux'' ''amd64'' ?imps ''json'' ''/src/m/caps.lock'' [] False) = ran ''{}''"
    "capslock_bin readonly_world (capslock_args ''linux'' ''amd64'' ?imps ''verbose'' ''/src/m/caps.summary'' [] False) = ran ''summary''"
    by (simp_all add: readonly_world_def demo_world_def capslock_args_def)
  have wr: "os_WriteFile demo_world p b = None" "os_WriteFile readonly_world p b = Some ''permission denied''" for p b
    by (simp_all add: readonly_world_def demo_world_def)
  have rn: "run_err (ran x) = None" "proc_stdout (ran x) = x" for x
    by (simp_all add: ran_def)
  note t = lock_writes_summary_then_lock[OF res, where verbose=True and custom="[]" and noBuiltin=False,
      unfolded Let_def j ev wr rn]
  note t' = lock_writes_summary_then_lock[OF res', where verbose=True and custom="[]" and noBuiltin=False,
      unfolded Let_def j ev wr rn]
  from t have a: "snd ?R = Exit 0" by simp
  from t have b: "stdout (fst ?R) = stdout sys0 @ ''summary'' @ [CHR 0x0A]" by simp
  from t have c: "files (fst ?R) = (files sys0)(''/src/m/caps.summary'' \<mapsto> ''summary'', ''/src/m/caps.lock'' \<mapsto> ''{}'')"
    by simp
  from t' have d: "snd ?R' = Exit 1" by simp
  from t' have e: "stdout (fst ?R') = stdout sys0" by simp
  from a b c d e show ?thesis by (simp add: sys0_def)
qed

text \<open>
  C8. With \<open>-imports\<close> set the run leaves every file as it was and makes no baseline
  access (no run of the analyzer, no file write), whether the resolution succeeds or not.
  When the resolution fails the run ends with the failure; when it succeeds the resolved
  import paths are printed one per line in sorted order, nothing else is called, and the
  exit code is 0.
\<close>

theorem imports_listing:
  "let R = analyse w goos goarch ignore module True lock stdlib verbose noBuiltin custom s
   in files (fst R) = files s
    \<and> filter baseline_access (trace (fst R)) = filter baseline_access (trace s)
    \<and> (case resolve w goos goarch ignore module stdlib s of
          (s1, Aborted out) \<Rightarrow> R = (s1, out)
        | (s1, Resolved root imports) \<Rightarrow>
            snd R = Exit 0
            \<and> stdout (fst R) = stdout s @ concat (map (\<lambda>i. i @ [CHR 0x0A]) (sort imports))
            \<and> sorted (sort imports) \<and> set (sort imports) = set imports
            \<and> trace (fst R) = trace s1)"
proof -
  obtain s1 res where r: "resolve w goos goarch ignore module stdlib s = (s1, res)"
    by (cases "resolve w goos goarch ignore module stdlib s") auto
  from resolve_untouched[OF r] have u: "files s1 = files s" "stdout s1 = stdout s"
    "filter baseline_access (trace s1) = filter baseline_access (trace s)"
    by (simp_all add: untouched_def)
  show ?thesis
  proof (cases res)
    case (Aborted out)
    with r u show ?thesis by (simp add: analyse_Aborted)
  next
    case (Resolved root targets)
    with r u show ?thesis by (simp add: analyse_Resolved dispatch_list)
  qed
qed

theorem imports_listing_witness:
  "snd (analyse demo_world ''linux'' ''amd64'' [] True True False False False False [] sys0) = Exit 0
   \<and> stdout (fst (analyse demo_world ''linux'' ''amd64'' [] True True False False False False [] sys0))
     = ''github.com/a/lib'' @ [CHR 0x0A] @ ''github.com/b/dep'' @ [CHR 0x0A] @ ''github.com/z/ignored'' @ [CHR 0x0A]
   \<and> filter baseline_access (trace (fst (analyse demo_world ''linux'' ''amd64'' [] True True False False False False [] sys0))) = []"
proof -
  have r: "snd (resolve demo_world ''linux'' ''amd64'' [] True False sys0)
       = Resolved ''/src/m'' [''github.com/b/dep'', ''github.com/z/ignored'', ''github.com/a/lib'']"
    by code_simp
  then obtain s1 where res: "resolve demo_world ''linux'' ''amd64'' [] True False sys0
       = (s1, Resolved ''/src/m'' [''github.com/b/dep'', ''github.com/z/ignored'', ''github.com/a/lib''])"
    by (cases "resolve demo_world ''linux'' ''amd64'' [] True False sys0") auto
  have srt: "sort [''github.com/b/dep'', ''github.com/z/ignored'', ''github.com/a/lib'']
       = [''github.com/a/lib'', ''github.com/b/dep'', ''github.com/z/ignored'']"
    by code_simp
  note t = imports_listing[of demo_world "''linux''" "''amd64''" "[]" True False False False False "[]" sys0,
      unfolded Let_def res prod.case resolution.case srt]
  let ?R = "analyse demo_world ''linux'' ''amd64'' [] True True False False False False [] sys0"
  from t have a: "filter baseline_access (trace (fst ?R)) = filter baseline_access (trace sys0)"
    by (elim conjE)
  from t have b: "snd ?R = Exit 0"
    by (elim conjE)
  from t have c: "stdout (fst ?R) = stdout sys0 @ concat (map (\<lambda>i. i @ [CHR 0x0A])
      [''github.com/a/lib'', ''github.com/b/dep'', ''github.com/z/ignored''])"
    by (elim conjE)
  from a b c show ?thesis by (simp add: sys0_def)
qed

text \<open>
  C9. With the imports resolved, the listing path prints them sorted, while the other two
  paths hand them to the analyzer as they are: the first call after the resolution runs
  the analyzer with the \<open>-packages\<close> argument made of the resolved list joined by
  commas, in the order the range over the map of imports gave. Two worlds that differ only
  in that order pass the same three packages to the analyzer in different orders, and
  print the same listing.
\<close>

theorem packages_argument_order:
  "(\<forall>s1 root imports.
       resolve w goos goarch ignore module stdlib s = (s1, Resolved root imports) \<longrightarrow>
         (\<not> list \<longrightarrow>
            prefix (trace s1 @ [Exec ''capslock''
                (capslock_args goos goarch imports (if lock then ''verbose'' else ''compare'')
                   (filepath_Join w root (if lock then ''caps.summary'' else ''caps.lock'')) custom noBuiltin) []])
              (trace (fst (analyse w goos goarch ignore module list lock stdlib verbose noBuiltin custom s))))
         \<and> (list \<longrightarrow>
              stdout (fst (analyse w goos goarch ignore module list lock stdlib verbose noBuiltin custom s))
                = stdout s @ concat (map (\<lambda>i. i @ [CHR 0x0A]) (sort imports))))
   \<and> (\<forall>pkgs format path.
         capslock_args goos goarch pkgs format path custom noBuiltin ! 6 = ''-packages''
         \<and> capslock_args goos goarch pkgs format path custom noBuiltin ! 7 = Join pkgs '','')
   \<and> last (trace (fst (Main demo_world flags0 sys0)))
       = Exec ''capslock'' [''-goos'', ''linux'', ''-goarch'', ''amd64'', ''-output'', ''compare'', ''-packages'',
                           ''github.com/b/dep,github.com/z/ignored,github.com/a/lib'', ''/src/m/caps.lock''] []
   \<and> last (trace (fst (Main shuffled_world flags0 sys0)))
       = Exec ''capslock'' [''-goos'', ''linux'', ''-goarch'', ''amd64'', ''-output'', ''compare'', ''-packages'',
                           ''github.com/a/lib,github.com/b/dep,github.com/z/ignored'', ''/src/m/caps.lock''] []
   \<and> stdout (fst (Main demo_world (flags0\<lparr>flag_imports := True\<rparr>) sys0))
       = stdout (fst (Main shuffled_world (flags0\<lparr>flag_imports := True\<rparr>) sys0))"
proof -
  let ?R = "analyse w goos goarch ignore module list lock stdlib verbose noBuiltin custom s"
  have A: "\<forall>s1 root imports.
       resolve w goos goarch ignore module stdlib s = (s1, Resolved root imports) \<longrightarrow>
         (\<not> list \<longrightarrow>
            prefix (trace s1 @ [Exec ''capslock''
                (capslock_args goos goarch imports (if lock then ''verbose'' else ''compare'')
                   (filepath_Join w root (if lock then ''caps.summary'' else ''caps.lock'')) custom noBuiltin) []])
              (trace (fst ?R)))
         \<and> (list \<longrightarrow> stdout (fst ?R) = stdout s @ concat (map (\<lambda>i. i @ [CHR 0x0A]) (sort imports)))"
  proof (intro allI impI)
    fix s1 root targets
    assume res: "resolve w goos goarch ignore module stdlib s = (s1, Resolved root targets)"
    from resolve_untouched[OF res] have u: "stdout s1 = stdout s" by (simp add: untouched_def)
    show "(\<not> list \<longrightarrow>
            prefix (trace s1 @ [Exec ''capslock''
                (capslock_args goos goarch targets (if lock then ''verbose'' else ''compare'')
                   (filepath_Join w root (if lock then ''caps.summary'' else ''caps.lock'')) custom noBuiltin) []])
              (trace (fst ?R)))
         \<and> (list \<longrightarrow> stdout (fst ?R) = stdout s @ concat (map (\<lambda>i. i @ [CHR 0x0A]) (sort targets)))"
    proof (cases list)
      case True
      with u show ?thesis by (simp add: analyse_Resolved[OF res] dispatch_list)
    next
      case False
      with dispatch_first_call[of list s1 goos goarch targets lock w root custom noBuiltin verbose]
      show ?thesis by (simp add: analyse_Resolved[OF res])
    qed
  qed
  have B: "\<forall>pkgs format path.
         capslock_args goos goarch pkgs format path custom noBuiltin ! 6 = ''-packages''
         \<and> capslock_args goos goarch pkgs format path custom noBuiltin ! 7 = Join pkgs '',''"
    by (simp add: capslock_args_def)
  have C1: "last (trace (fst (Main demo_world flags0 sys0)))
       = Exec ''capslock'' [''-goos'', ''linux'', ''-goarch'', ''amd64'', ''-output'', ''compare'', ''-packages'',
                           ''github.com/b/dep,github.com/z/ignored,github.com/a/lib'', ''/src/m/caps.lock''] []"
    by code_simp
  have C2: "last (trace (fst (Main shuffled_world flags0 sys0)))
       = Exec ''capslock'' [''-goos'', ''linux'', ''-goarch'', ''amd64'', ''-output'', ''compare'', ''-packages'',
                           ''github.com/a/lib,github.com/b/dep,github.com/z/ignored'', ''/src/m/caps.lock''] []"
    by code_simp
  have C3: "stdout (fst (Main demo_world (flags0\<lparr>flag_imports := True\<rparr>) sys0))
       = stdout (fst (Main shuffled_world (flags0\<lparr>flag_imports := True\<rparr>) sys0))"
    by code_simp
  show ?thesis
    apply (rule conjI, rule A)
    apply (rule conjI, rule B)
    apply (rule conjI, rule C1)
    apply (rule conjI, rule C2)
    apply (rule C3)
    done
qed

theorem packages_argument_order_witness:
  "snd (resolve demo_world ''linux'' ''amd64'' [] True False sys0)
     = Resolved ''/src/m'' [''github.com/b/dep'', ''github.com/z/ignored'', ''github.com/a/lib'']
   \<and> Exec ''capslock'' (capslock_args ''linux'' ''amd64''
          [''github.com/b/dep'', ''github.com/z/ignored'', ''github.com/a/lib''] ''compare''
          (filepath_Join demo_world ''/src/m'' ''caps.lock'') [] False) []
       \<in> set (trace (fst (analyse demo_world ''linux'' ''amd64'' [] True False False False False False [] sys0)))
   \<and> stdout (fst (analyse demo_world ''linux'' ''amd64'' [] True True False False False False [] sys0))
       = concat (map (\<lambda>i. i @ [CHR 0x0A]) [''github.com/a/lib'', ''github.com/b/dep'', ''github.com/z/ignored''])"
proof -
  let ?imps = "[''github.com/b/dep'', ''github.com/z/ignored'', ''github.com/a/lib'']"
  let ?E = "Exec ''capslock'' (capslock_args ''linux'' ''amd64'' ?imps ''compare''
          (filepath_Join demo_world ''/src/m'' ''caps.lock'') [] False) []"
  let ?R = "analyse demo_world ''linux'' ''amd64'' [] True False False False False False [] sys0"
  have r: "snd (resolve demo_world ''linux'' ''amd64'' [] True False sys0) = Resolved ''/src/m'' ?imps"
    by code_simp
  then obtain s1 where res: "resolve demo_world ''linux'' ''amd64'' [] True False sys0 = (s1, Resolved ''/src/m'' ?imps)"
    by (cases "resolve demo_world ''linux'' ''amd64'' [] True False sys0") auto
  have srt: "sort ?imps = [''github.com/a/lib'', ''github.com/b/dep'', ''github.com/z/ignored'']"
    by code_simp
  note t = packages_argument_order[where w=demo_world and goos="''linux''" and goarch="''amd64''"
      and ignore="[]" and module=True and stdlib=False and s=sys0 and list=False and lock=False
      and verbose=False and noBuiltin=False and custom="[]", THEN conjunct1, rule_format, OF res, THEN conjunct1]
  note l = packages_argument_order[where w=demo_world and goos="''linux''" and goarch="''amd64''"
      and ignore="[]" and module=True and stdlib=False and s=sys0 and list=True and lock=False
      and verbose=False and noBuiltin=False and custom="[]", THEN conjunct1, rule_format, OF res, THEN conjunct2,
      rule_format, OF TrueI, unfolded srt]
  from t have "prefix (trace s1 @ [?E]) (trace (fst ?R))"
    by simp
  then have "set (trace s1 @ [?E]) \<subseteq> set (trace (fst ?R))"
    by (rule set_mono_prefix)
  then have e: "?E \<in> set (trace (fst ?R))"
    by simp
  from l have "stdout (fst (analyse demo_world ''linux'' ''amd64'' [] True True False False False False [] sys0))
       = concat (map (\<lambda>i. i @ [CHR 0x0A]) [''github.com/a/lib'', ''github.com/b/dep'', ''github.com/z/ignored''])"
    by (simp add: sys0_def)
  with r e show ?thesis by (intro conjI)
qed

text \<open>
  C10. \<open>pkg.Module.Path\<close> is evaluated without a nil check. If every package that a load
  can return carries module metadata, the run does not panic. If the load of the root
  returns packages without errors, one of which has no module metadata and at least one
  import, the run panics: it ends with no exit code of the program's own.
\<close>

theorem module_metadata_and_panic:
  "((\<forall>pat pkgs. packages_Load w goos goarch pat = Inr pkgs \<longrightarrow> (\<forall>pkg\<in>set pkgs. Module pkg \<noteq> None))
      \<longrightarrow> snd (analyse w goos goarch ignore module list lock stdlib verbose noBuiltin custom s) \<noteq> Panic)
   \<and> (\<forall>s1 root pkgs.
         find_root w module s = (s1, Inr root)
         \<and> packages_Load w goos goarch (filepath_Join w root ''...'') = Inr pkgs
         \<and> (\<forall>pkg\<in>set pkgs. Errors pkg = [])
         \<and> (\<exists>pkg\<in>set pkgs. Module pkg = None \<and> Imports pkg \<noteq> [])
         \<longrightarrow> snd (analyse w goos goarch ignore module list lock stdlib verbose noBuiltin custom s) = Panic)"
proof -
  let ?R = "analyse w goos goarch ignore module list lock stdlib verbose noBuiltin custom s"
  have A: "snd ?R \<noteq> Panic"
    if h: "\<forall>pat pkgs. packages_Load w goos goarch pat = Inr pkgs \<longrightarrow> (\<forall>pkg\<in>set pkgs. Module pkg \<noteq> None)"
  proof
    assume p: "snd ?R = Panic"
    obtain s' res where r: "resolve w goos goarch ignore module stdlib s = (s', res)"
      by (cases "resolve w goos goarch ignore module stdlib s") auto
    show False
    proof (cases res)
      case (Aborted out)
      with r p have "out = Panic" by (simp add: analyse_Aborted)
      with r Aborted obtain root pkgs where
        "packages_Load w goos goarch (filepath_Join w root ''...'') = Inr pkgs"
        "collect w ignore pkgs [] = None"
        by (auto elim: resolve_Panic)
      note this
      then obtain pkg where "pkg \<in> set pkgs" "Module pkg = None"
        by (auto simp: collect_None)
      with h \<open>packages_Load w goos goarch (filepath_Join w root ''...'') = Inr pkgs\<close>
      show False by blast
    next
      case (Resolved root targets)
      with r p show False by (simp add: analyse_Resolved dispatch_no_panic)
    qed
  qed
  have B: "snd ?R = Panic"
    if "find_root w module s = (s1, Inr root)"
      "packages_Load w goos goarch (filepath_Join w root ''...'') = Inr pkgs"
      "\<forall>pkg\<in>set pkgs. Errors pkg = []"
      "\<exists>pkg\<in>set pkgs. Module pkg = None \<and> Imports pkg \<noteq> []"
    for s1 root pkgs
  proof -
    from that(4) have "collect w ignore pkgs [] = None" by (simp add: collect_None)
    from resolve_collect_None[OF that(1-3) this, of stdlib]
    show ?thesis
      by (cases "resolve w goos goarch ignore module stdlib s") (simp add: analyse_def)
  qed
  from A B show ?thesis by blast
qed

theorem module_metadata_and_panic_witness:
  "snd (analyse demo_world ''linux'' ''amd64'' [] True False False False False False [] sys0) \<noteq> Panic
   \<and> packages_Load bare_world ''linux'' ''amd64'' (filepath_Join bare_world ''/src/m'' ''...'') = Inr [pkg_bare]
   \<and> Module pkg_bare = None
   \<and> snd (analyse bare_world ''linux'' ''amd64'' [] True False False False False False [] sys0) = Panic"
proof -
  have h: "\<forall>pat pkgs. packages_Load demo_world ''linux'' ''amd64'' pat = Inr pkgs \<longrightarrow>
             (\<forall>pkg\<in>set pkgs. Module pkg \<noteq> None)"
    by (auto simp: demo_world_def pkg_m_def pkg_x_def split: if_splits)
  have "snd (find_root bare_world True sys0) = Inr ''/src/m''" by code_simp
  then obtain s1 where fr: "find_root bare_world True sys0 = (s1, Inr ''/src/m'')"
    by (cases "find_root bare_world True sys0") auto
  have pk: "packages_Load bare_world ''linux'' ''amd64'' (filepath_Join bare_world ''/src/m'' ''...'') = Inr [pkg_bare]"
    by (simp add: bare_world_def)
  have er: "\<forall>pkg\<in>set [pkg_bare]. Errors pkg = []"
    by (simp add: pkg_bare_def)
  have nm: "\<exists>pkg\<in>set [pkg_bare]. Module pkg = None \<and> Imports pkg \<noteq> []"
    by (simp add: pkg_bare_def)
  have m: "Module pkg_bare = None" by (simp add: pkg_bare_def)
  note t1 = module_metadata_and_panic[of demo_world "''linux''" "''amd64''" "[]" True False False False False False "[]" sys0]
  note t2 = module_metadata_and_panic[of bare_world "''linux''" "''amd64''" "[]" True False False False False False "[]" sys0]
  from t1 h have 1: "snd (analyse demo_world ''linux'' ''amd64'' [] True False False False False False [] sys0) \<noteq> Panic"
    by blast
  from t2 fr pk er nm have 2: "snd (analyse bare_world ''linux'' ''amd64'' [] True False False False False False [] sys0) = Panic"
    by blast
  from 1 2 pk m show ?thesis by simp
qed

end
